theory Spec2Isabelle
  imports Complex_Main "HOL-Library.Word"
begin

unbundle bit_operations_syntax


section \<open>Value representation (bifrost\_vm\_value.h, bifrost\_vm\_value.c)\<close>

text \<open>
  A \<open>bfVMValue\<close> is a \<open>uint64_t\<close>.  The constants below are the macros of
  bifrost\_vm\_value.h, written out as the header has them.  Note that the header defines
  \<open>k_VMValueFalse\<close> with the tag \<open>k_VMValueTagNull\<close>; the model keeps that.
\<close>

type_synonym bfVMValue = "64 word"

definition k_doubleSignBit :: "64 word" where
  "k_doubleSignBit = push_bit 63 1"

definition k_QuietNan :: "64 word" where
  "k_QuietNan = 0x7FFC000000000000"

definition k_VMValuePointerMask :: "64 word" where
  "k_VMValuePointerMask = k_doubleSignBit OR k_QuietNan"

definition k_VMValueTagMask :: "64 word" where
  "k_VMValueTagMask = 0x3"

definition k_VMValueTagNan :: "64 word" where
  "k_VMValueTagNan = 0x0"

definition k_VMValueTagNull :: "64 word" where
  "k_VMValueTagNull = 0x1"

definition k_VMValueTagTrue :: "64 word" where
  "k_VMValueTagTrue = 0x2"

definition k_VMValueTagFalse :: "64 word" where
  "k_VMValueTagFalse = 0x3"

definition k_VMValueNull :: bfVMValue where
  "k_VMValueNull = k_QuietNan OR k_VMValueTagNull"

definition k_VMValueTrue :: bfVMValue where
  "k_VMValueTrue = k_QuietNan OR k_VMValueTagTrue"

definition k_VMValueFalse :: bfVMValue where
  "k_VMValueFalse = k_QuietNan OR k_VMValueTagNull"

definition bfVMValue_isNull :: "bfVMValue \<Rightarrow> bool" where
  "bfVMValue_isNull v = (v = k_VMValueNull)"

definition bfVMValue_isTrue :: "bfVMValue \<Rightarrow> bool" where
  "bfVMValue_isTrue v = (v = k_VMValueTrue)"

definition bfVMValue_isFalse :: "bfVMValue \<Rightarrow> bool" where
  "bfVMValue_isFalse v = (v = k_VMValueFalse)"

definition bfVMValue_isBool :: "bfVMValue \<Rightarrow> bool" where
  "bfVMValue_isBool v = (bfVMValue_isTrue v \<or> bfVMValue_isFalse v)"

definition bfVMValue_isPointer :: "bfVMValue \<Rightarrow> bool" where
  "bfVMValue_isPointer v = (v AND k_VMValuePointerMask = k_VMValuePointerMask)"

definition bfVMValue_isNumber :: "bfVMValue \<Rightarrow> bool" where
  "bfVMValue_isNumber v = (v AND k_QuietNan \<noteq> k_QuietNan)"

definition bfVMValue_fromNull :: bfVMValue where
  "bfVMValue_fromNull = k_VMValueNull"

definition bfVMValue_fromBool :: "bool \<Rightarrow> bfVMValue" where
  "bfVMValue_fromBool b = (if b then k_VMValueTrue else k_VMValueFalse)"

text \<open>
  \<open>bfVMValue_fromNumber\<close> and \<open>bfVMValue_asNumber\<close> copy the eight bytes of a
  \<open>double\<close> to and from the value (\<open>LibC_memcpy\<close>); a number is represented here by
  its bit pattern, so both are the identity on patterns.
\<close>

definition bfVMValue_fromNumber :: "64 word \<Rightarrow> bfVMValue" where
  "bfVMValue_fromNumber bits64 = bits64"

definition bfVMValue_asNumber :: "bfVMValue \<Rightarrow> 64 word" where
  "bfVMValue_asNumber v = v"

definition bfVMValue_fromPointer :: "64 word \<Rightarrow> bfVMValue" where
  "bfVMValue_fromPointer p = (if p \<noteq> 0 then k_VMValuePointerMask OR p else bfVMValue_fromNull)"

definition bfVMValue_asPointer :: "bfVMValue \<Rightarrow> 64 word" where
  "bfVMValue_asPointer v = v AND NOT k_VMValuePointerMask"

definition bfVMValue_isThuthy :: "bfVMValue \<Rightarrow> bool" where
  "bfVMValue_isThuthy v =
     (if bfVMValue_isNull v \<or> bfVMValue_isFalse v
         \<or> (bfVMValue_isPointer v \<and> \<not> (bfVMValue_asPointer v \<noteq> 0))
      then False else True)"

section \<open>Instruction encoding (bifrost\_vm\_instruction\_op.h)\<close>

type_synonym bfInstruction = "32 word"

datatype bfInstructionOp =
    BIFROST_VM_OP_LOAD_SYMBOL
  | BIFROST_VM_OP_LOAD_BASIC
  | BIFROST_VM_OP_STORE_MOVE
  | BIFROST_VM_OP_STORE_SYMBOL
  | BIFROST_VM_OP_NEW_CLZ
  | BIFROST_VM_OP_MATH_ADD
  | BIFROST_VM_OP_MATH_SUB
  | BIFROST_VM_OP_MATH_MUL
  | BIFROST_VM_OP_MATH_DIV
  | BIFROST_VM_OP_MATH_MOD
  | BIFROST_VM_OP_MATH_POW
  | BIFROST_VM_OP_MATH_INV
  | BIFROST_VM_OP_CMP_EE
  | BIFROST_VM_OP_CMP_NE
  | BIFROST_VM_OP_CMP_LT
  | BIFROST_VM_OP_CMP_LE
  | BIFROST_VM_OP_CMP_GT
  | BIFROST_VM_OP_CMP_GE
  | BIFROST_VM_OP_CMP_AND
  | BIFROST_VM_OP_CMP_OR
  | BIFROST_VM_OP_NOT
  | BIFROST_VM_OP_CALL_FN
  | BIFROST_VM_OP_JUMP
  | BIFROST_VM_OP_JUMP_IF
  | BIFROST_VM_OP_JUMP_IF_NOT
  | BIFROST_VM_OP_RETURN

text \<open>The value the C enumeration gives each opcode (declaration order, from 0).\<close>

fun op_code :: "bfInstructionOp \<Rightarrow> 32 word" where
  "op_code BIFROST_VM_OP_LOAD_SYMBOL = 0"
| "op_code BIFROST_VM_OP_LOAD_BASIC = 1"
| "op_code BIFROST_VM_OP_STORE_MOVE = 2"
| "op_code BIFROST_VM_OP_STORE_SYMBOL = 3"
| "op_code BIFROST_VM_OP_NEW_CLZ = 4"
| "op_code BIFROST_VM_OP_MATH_ADD = 5"
| "op_code BIFROST_VM_OP_MATH_SUB = 6"
| "op_code BIFROST_VM_OP_MATH_MUL = 7"
| "op_code BIFROST_VM_OP_MATH_DIV = 8"
| "op_code BIFROST_VM_OP_MATH_MOD = 9"
| "op_code BIFROST_VM_OP_MATH_POW = 10"
| "op_code BIFROST_VM_OP_MATH_INV = 11"
| "op_code BIFROST_VM_OP_CMP_EE = 12"
| "op_code BIFROST_VM_OP_CMP_NE = 13"
| "op_code BIFROST_VM_OP_CMP_LT = 14"
| "op_code BIFROST_VM_OP_CMP_LE = 15"
| "op_code BIFROST_VM_OP_CMP_GT = 16"
| "op_code BIFROST_VM_OP_CMP_GE = 17"
| "op_code BIFROST_VM_OP_CMP_AND = 18"
| "op_code BIFROST_VM_OP_CMP_OR = 19"
| "op_code BIFROST_VM_OP_NOT = 20"
| "op_code BIFROST_VM_OP_CALL_FN = 21"
| "op_code BIFROST_VM_OP_JUMP = 22"
| "op_code BIFROST_VM_OP_JUMP_IF = 23"
| "op_code BIFROST_VM_OP_JUMP_IF_NOT = 24"
| "op_code BIFROST_VM_OP_RETURN = 25"

definition BIFROST_INST_OP_MASK :: "32 word" where
  "BIFROST_INST_OP_MASK = 0x1F"

definition BIFROST_INST_RA_MASK :: "32 word" where
  "BIFROST_INST_RA_MASK = 0x1FF"

definition BIFROST_INST_RA_OFFSET :: nat where
  "BIFROST_INST_RA_OFFSET = 5"

definition BIFROST_INST_RB_MASK :: "32 word" where
  "BIFROST_INST_RB_MASK = 0x1FF"

definition BIFROST_INST_RB_OFFSET :: nat where
  "BIFROST_INST_RB_OFFSET = 14"

definition BIFROST_INST_RC_MASK :: "32 word" where
  "BIFROST_INST_RC_MASK = 0x1FF"

definition BIFROST_INST_RC_OFFSET :: nat where
  "BIFROST_INST_RC_OFFSET = 23"

definition BIFROST_INST_RBx_MASK :: "32 word" where
  "BIFROST_INST_RBx_MASK = 0x3FFFF"

definition BIFROST_INST_RBx_OFFSET :: nat where
  "BIFROST_INST_RBx_OFFSET = 14"

definition BIFROST_INST_RsBx_MASK :: "32 word" where
  "BIFROST_INST_RsBx_MASK = 0x3FFFF"

definition BIFROST_INST_RsBx_OFFSET :: nat where
  "BIFROST_INST_RsBx_OFFSET = 14"

definition BIFROST_INST_RsBx_MAX :: "32 word" where
  "BIFROST_INST_RsBx_MAX = BIFROST_INST_RsBx_MASK div 2"

definition BIFROST_INST_INVALID :: bfInstruction where
  "BIFROST_INST_INVALID = 0xFFFFFFFF"

definition BIFROST_MAKE_INST_OP :: "32 word \<Rightarrow> bfInstruction" where
  "BIFROST_MAKE_INST_OP opc = opc AND BIFROST_INST_OP_MASK"

definition BIFROST_MAKE_INST_RC :: "32 word \<Rightarrow> bfInstruction" where
  "BIFROST_MAKE_INST_RC c = push_bit BIFROST_INST_RC_OFFSET (c AND BIFROST_INST_RC_MASK)"

definition BIFROST_MAKE_INST_OP_ABC :: "32 word \<Rightarrow> 32 word \<Rightarrow> 32 word \<Rightarrow> 32 word \<Rightarrow> bfInstruction" where
  "BIFROST_MAKE_INST_OP_ABC opc a b c =
     BIFROST_MAKE_INST_OP opc
       OR push_bit BIFROST_INST_RA_OFFSET (a AND BIFROST_INST_RA_MASK)
       OR push_bit BIFROST_INST_RB_OFFSET (b AND BIFROST_INST_RB_MASK)
       OR BIFROST_MAKE_INST_RC c"

definition BIFROST_MAKE_INST_OP_ABx :: "32 word \<Rightarrow> 32 word \<Rightarrow> 32 word \<Rightarrow> bfInstruction" where
  "BIFROST_MAKE_INST_OP_ABx opc a bx =
     BIFROST_MAKE_INST_OP opc
       OR push_bit BIFROST_INST_RA_OFFSET (a AND BIFROST_INST_RA_MASK)
       OR push_bit BIFROST_INST_RBx_OFFSET (bx AND BIFROST_INST_RBx_MASK)"

text \<open>
  The signed operand is biased by \<open>BIFROST_INST_RsBx_MAX\<close> and cut to 18 bits.  The
  callers pass an \<open>int32_t\<close>, an \<open>int\<close> or a \<open>size_t\<close>; the sum is unsigned in each
  case and only its low 18 bits survive the mask, so the operand is taken here as the
  low 32 bits of what the caller passes.
\<close>

definition BIFROST_MAKE_INST_OP_AsBx :: "32 word \<Rightarrow> 32 word \<Rightarrow> 32 word \<Rightarrow> bfInstruction" where
  "BIFROST_MAKE_INST_OP_AsBx opc a bx =
     BIFROST_MAKE_INST_OP opc
       OR push_bit BIFROST_INST_RA_OFFSET (a AND BIFROST_INST_RA_MASK)
       OR push_bit BIFROST_INST_RsBx_OFFSET ((bx + BIFROST_INST_RsBx_MAX) AND BIFROST_INST_RsBx_MASK)"

definition bfInst_decodeOp :: "bfInstruction \<Rightarrow> 32 word" where
  "bfInst_decodeOp inst = inst AND BIFROST_INST_OP_MASK"

definition bfInst_decodeRa :: "bfInstruction \<Rightarrow> 32 word" where
  "bfInst_decodeRa inst = drop_bit BIFROST_INST_RA_OFFSET inst AND BIFROST_INST_RA_MASK"

definition bfInst_decodeRb :: "bfInstruction \<Rightarrow> 32 word" where
  "bfInst_decodeRb inst = drop_bit BIFROST_INST_RB_OFFSET inst AND BIFROST_INST_RB_MASK"

definition bfInst_decodeRc :: "bfInstruction \<Rightarrow> 32 word" where
  "bfInst_decodeRc inst = drop_bit BIFROST_INST_RC_OFFSET inst AND BIFROST_INST_RC_MASK"

definition bfInst_decodeRBx :: "bfInstruction \<Rightarrow> 32 word" where
  "bfInst_decodeRBx inst = drop_bit BIFROST_INST_RBx_OFFSET inst AND BIFROST_INST_RBx_MASK"

text \<open>
  \<open>(int32_t)decodeRBx(inst) - BIFROST_INST_RsBx_MAX\<close>: a 32-bit subtraction read back
  as a signed number.
\<close>

definition bfInst_decodeRsBx :: "bfInstruction \<Rightarrow> int" where
  "bfInst_decodeRsBx inst = sint (bfInst_decodeRBx inst - BIFROST_INST_RsBx_MAX)"


section \<open>C strings (bifrost\_libc.c, bifrost\_vm\_obj.c)\<close>

text \<open>
  A byte buffer is a \<open>char list\<close>.  A \<open>BifrostString\<close> of length \<open>n\<close> is followed by a
  NUL byte (\<open>bfVMString_newLen\<close> writes it), so a read just behind the listed bytes
  yields NUL.

  \<open>LibC_strncmp\<close> (bifrost\_libc.c) is the C library's \<open>strncmp\<close>: at most \<open>n\<close> bytes are
  compared and the comparison stops behind a NUL.
\<close>

fun LibC_strncmp :: "string \<Rightarrow> string \<Rightarrow> nat \<Rightarrow> int" where
  "LibC_strncmp lhs rhs 0 = 0"
| "LibC_strncmp lhs rhs (Suc n) =
     (let a = (case lhs of [] \<Rightarrow> CHR 0x00 | x # _ \<Rightarrow> x);
          b = (case rhs of [] \<Rightarrow> CHR 0x00 | y # _ \<Rightarrow> y)
      in if a \<noteq> b then int (of_char a :: nat) - int (of_char b :: nat)
         else if a = CHR 0x00 then 0
         else LibC_strncmp (tl lhs) (tl rhs) n)"

definition bfVMString_length :: "string \<Rightarrow> nat" where
  "bfVMString_length self = length self"

definition bfVMString_cmp :: "string \<Rightarrow> string \<Rightarrow> int" where
  "bfVMString_cmp self other =
     (let len1 = bfVMString_length self; len2 = bfVMString_length other
      in if len1 \<noteq> len2 then - 1 else LibC_strncmp self other len1)"

definition bfVMString_ccmpn :: "string \<Rightarrow> string \<Rightarrow> nat \<Rightarrow> int" where
  "bfVMString_ccmpn self other len =
     (if len > bfVMString_length self then - 1 else LibC_strncmp self other len)"

text \<open>FNV-1a over \<open>length\<close> bytes, in \<open>uint32_t\<close> arithmetic.\<close>

fun bfVMString_hashN_loop :: "32 word \<Rightarrow> string \<Rightarrow> 32 word" where
  "bfVMString_hashN_loop hash [] = hash"
| "bfVMString_hashN_loop hash (c # cs) =
     bfVMString_hashN_loop ((hash XOR of_nat (of_char c)) * 0x01000193) cs"

definition bfVMString_hashN :: "string \<Rightarrow> 32 word" where
  "bfVMString_hashN str = bfVMString_hashN_loop 0x811c9dc5 str"


section \<open>Heap objects and the virtual machine state (bifrost\_vm\_obj.h, bifrost\_vm.h)\<close>

text \<open>
  Objects live at addresses (\<open>64 word\<close>, \<open>0\<close> is \<open>NULL\<close>); the heap maps an address to
  the object stored there.  Each object carries the fields the interpreter reads.
\<close>

datatype BifrostObjType =
    BIFROST_VM_OBJ_FUNCTION
  | BIFROST_VM_OBJ_MODULE
  | BIFROST_VM_OBJ_CLASS
  | BIFROST_VM_OBJ_INSTANCE
  | BIFROST_VM_OBJ_STRING
  | BIFROST_VM_OBJ_NATIVE_FN
  | BIFROST_VM_OBJ_REFERENCE
  | BIFROST_VM_OBJ_WEAK_REF

record BifrostObjFn =
  fn_name :: string
  fn_arity :: int
  fn_constants :: "bfVMValue list"
  fn_instructions :: "bfInstruction list"
  fn_needed_stack_space :: nat
  fn_module :: "64 word"

record BifrostObjClass =
  clz_name :: string
  clz_base_clz :: "64 word"
  clz_symbols :: "bfVMValue list"

record BifrostObjStr =
  str_value :: string
  str_hash :: "32 word"

record BifrostObjNativeFn =
  nat_value :: nat
  nat_arity :: int

datatype BifrostObj =
    ObjFn BifrostObjFn
  | ObjModule string
  | ObjClass BifrostObjClass
  | ObjInstance "64 word"
  | ObjStr BifrostObjStr
  | ObjNativeFn BifrostObjNativeFn
  | ObjReference "64 word"
  | ObjWeakRef "64 word"

fun obj_type :: "BifrostObj \<Rightarrow> BifrostObjType" where
  "obj_type (ObjFn f) = BIFROST_VM_OBJ_FUNCTION"
| "obj_type (ObjModule m) = BIFROST_VM_OBJ_MODULE"
| "obj_type (ObjClass c) = BIFROST_VM_OBJ_CLASS"
| "obj_type (ObjInstance c) = BIFROST_VM_OBJ_INSTANCE"
| "obj_type (ObjStr s) = BIFROST_VM_OBJ_STRING"
| "obj_type (ObjNativeFn n) = BIFROST_VM_OBJ_NATIVE_FN"
| "obj_type (ObjReference c) = BIFROST_VM_OBJ_REFERENCE"
| "obj_type (ObjWeakRef c) = BIFROST_VM_OBJ_WEAK_REF"

text \<open>The \<open>clz\<close> member shared by instances, references and weak references.\<close>

fun instance_clz :: "BifrostObj \<Rightarrow> 64 word" where
  "instance_clz (ObjInstance c) = c"
| "instance_clz (ObjReference c) = c"
| "instance_clz (ObjWeakRef c) = c"
| "instance_clz other = 0"

datatype BifrostVMError =
    BIFROST_VM_ERROR_NONE
  | BIFROST_VM_ERROR_OUT_OF_MEMORY
  | BIFROST_VM_ERROR_RUNTIME
  | BIFROST_VM_ERROR_LEXER
  | BIFROST_VM_ERROR_COMPILE
  | BIFROST_VM_ERROR_FUNCTION_ARITY_MISMATCH
  | BIFROST_VM_ERROR_MODULE_ALREADY_DEFINED
  | BIFROST_VM_ERROR_MODULE_NOT_FOUND
  | BIFROST_VM_ERROR_INVALID_OP_ON_TYPE
  | BIFROST_VM_ERROR_INVALID_ARGUMENT
  | BIFROST_VM_ERROR_STACK_TRACE_BEGIN
  | BIFROST_VM_ERROR_STACK_TRACE
  | BIFROST_VM_ERROR_STACK_TRACE_END

text \<open>
  The messages of \<open>BF_RUNTIME_ERROR\<close>, one constructor for each format string of
  \<open>bfVM_execTopFrame\<close>, with the arguments that identify the failure.
\<close>

datatype runtime_error =
    ErrLoadSymbolNonObject
  | ErrSymbolNotDefined
  | ErrLoadSymbolNonInstance
  | ErrStoreNonObject
  | ErrStoreNonInstance
  | ErrNewNonClass
  | ErrCallMustBeFunction
  | ErrNoCallFunction
  | ErrFunctionArity nat int
  | ErrNativeArity nat int
  | ErrNotCallable
  | ErrNotPointerToCall
  | ErrAddIncompatible
  | ErrSubNonNumber
  | ErrInvalidOp nat

text \<open>
  The text held by \<open>last_error\<close>: empty, a runtime error message, the line of a stack
  frame written while a stack trace is emitted, or one of the two messages of
  \<open>bfVM_importModule\<close>.
\<close>

datatype error_text =
    ErrTextEmpty
  | ErrTextRuntime runtime_error
  | ErrTextStackFrame nat
  | ErrTextModuleNotFound string
  | ErrTextNoModuleFn string

record BifrostVMStackFrame =
  fr_fn :: "64 word"
  fr_ip :: int
  fr_old_stack :: nat
  fr_stack :: nat

text \<open>
  What the host and the VM do outside the functions modelled here is recorded as a
  list of events, so that "the callback was not called" is a statement about the state.
\<close>

datatype vm_event =
    EvErrorFn BifrostVMError
  | EvNativeCall nat int
  | EvModuleFn string string
  | EvCompile "64 word"
  | EvRunModule "64 word"

text \<open>
  The operand stack is the memory behind \<open>self->stack\<close> (slot index to value) with the
  array's size; \<open>stack_top\<close> and the frame fields are offsets into it.  The module
  registry is the chained hash map: a list of buckets, each a chain of
  (key string object, module address) nodes.
\<close>

record BifrostVM =
  vm_heap :: "64 word \<Rightarrow> BifrostObj option"
  vm_frames :: "BifrostVMStackFrame list"
  vm_stack :: "nat \<Rightarrow> bfVMValue"
  vm_stack_size :: nat
  vm_stack_top :: nat
  vm_symbols :: "string list"
  vm_modules :: "(BifrostObjStr \<times> 64 word) list list"
  vm_last_error :: error_text
  vm_build_in_symbol_call :: nat
  vm_current_native_fn :: "64 word"
  vm_error_fn :: bool
  vm_module_fn :: bool
  vm_events :: "vm_event list"

text \<open>
  Parts of the machine that the functions below call and that are not modelled:
  IEEE arithmetic and comparison of \<open>double\<close>s (on bit patterns), the symbol load and
  store and object creation of the object model, the string built by \<open>+\<close>, and the
  host's native functions.  They are parameters of the interpreter.
\<close>

record vm_prims =
  dbl_add :: "64 word \<Rightarrow> 64 word \<Rightarrow> 64 word"
  dbl_sub :: "64 word \<Rightarrow> 64 word \<Rightarrow> 64 word"
  dbl_mul :: "64 word \<Rightarrow> 64 word \<Rightarrow> 64 word"
  dbl_div :: "64 word \<Rightarrow> 64 word \<Rightarrow> 64 word"
  dbl_eq :: "64 word \<Rightarrow> 64 word \<Rightarrow> bool"
  dbl_lt :: "64 word \<Rightarrow> 64 word \<Rightarrow> bool"
  dbl_gt :: "64 word \<Rightarrow> 64 word \<Rightarrow> bool"
  dbl_ge :: "64 word \<Rightarrow> 64 word \<Rightarrow> bool"
  prim_load_symbol :: "BifrostVM \<Rightarrow> nat \<Rightarrow> nat \<Rightarrow> nat \<Rightarrow> runtime_error + BifrostVM"
  prim_store_symbol :: "BifrostVM \<Rightarrow> nat \<Rightarrow> nat \<Rightarrow> nat \<Rightarrow> runtime_error + BifrostVM"
  prim_new_instance :: "BifrostVM \<Rightarrow> 64 word \<Rightarrow> 64 word \<times> BifrostVM"
  prim_concat :: "BifrostVM \<Rightarrow> bfVMValue \<Rightarrow> bfVMValue \<Rightarrow> 64 word \<times> BifrostVM"
  prim_native :: "nat \<Rightarrow> BifrostVM \<Rightarrow> int \<Rightarrow> BifrostVM"


section \<open>Binary operations on values (bifrost\_vm\_value.c)\<close>

definition bfVMValue_sub :: "vm_prims \<Rightarrow> bfVMValue \<Rightarrow> bfVMValue \<Rightarrow> bfVMValue" where
  "bfVMValue_sub p lhs rhs =
     (if bfVMValue_isNumber lhs \<and> bfVMValue_isNumber rhs
      then bfVMValue_fromNumber (dbl_sub p (bfVMValue_asNumber lhs) (bfVMValue_asNumber rhs))
      else bfVMValue_fromNull)"

definition bfVMValue_mul :: "vm_prims \<Rightarrow> bfVMValue \<Rightarrow> bfVMValue \<Rightarrow> bfVMValue" where
  "bfVMValue_mul p lhs rhs =
     (if bfVMValue_isNumber lhs \<and> bfVMValue_isNumber rhs
      then bfVMValue_fromNumber (dbl_mul p (bfVMValue_asNumber lhs) (bfVMValue_asNumber rhs))
      else bfVMValue_fromNull)"

definition bfVMValue_div :: "vm_prims \<Rightarrow> bfVMValue \<Rightarrow> bfVMValue \<Rightarrow> bfVMValue" where
  "bfVMValue_div p lhs rhs =
     (if bfVMValue_isNumber lhs \<and> bfVMValue_isNumber rhs
      then bfVMValue_fromNumber (dbl_div p (bfVMValue_asNumber lhs) (bfVMValue_asNumber rhs))
      else bfVMValue_fromNull)"

text \<open>
  \<open>bfVMValue_ee\<close> reads the objects behind two pointer values; an address with no
  object behind it is outside what C defines, and the result is \<open>None\<close>.
\<close>

definition bfVMValue_ee ::
    "vm_prims \<Rightarrow> (64 word \<Rightarrow> BifrostObj option) \<Rightarrow> bfVMValue \<Rightarrow> bfVMValue \<Rightarrow> bool option" where
  "bfVMValue_ee p h lhs rhs =
     (if bfVMValue_isNumber lhs \<and> bfVMValue_isNumber rhs
      then Some (dbl_eq p (bfVMValue_asNumber lhs) (bfVMValue_asNumber rhs))
      else if bfVMValue_isPointer lhs \<and> bfVMValue_isPointer rhs
      then (case (h (bfVMValue_asPointer lhs), h (bfVMValue_asPointer rhs)) of
              (Some (ObjStr l), Some (ObjStr r)) \<Rightarrow>
                 Some (str_hash l = str_hash r \<and> bfVMString_cmp (str_value l) (str_value r) = 0)
            | (Some l, Some r) \<Rightarrow> Some (lhs = rhs)
            | _ \<Rightarrow> None)
      else Some (lhs = rhs))"

definition bfVMValue_lt :: "vm_prims \<Rightarrow> bfVMValue \<Rightarrow> bfVMValue \<Rightarrow> bool" where
  "bfVMValue_lt p lhs rhs =
     (if bfVMValue_isNumber lhs \<and> bfVMValue_isNumber rhs
      then dbl_lt p (bfVMValue_asNumber lhs) (bfVMValue_asNumber rhs)
      else lhs < rhs)"

definition bfVMValue_gt :: "vm_prims \<Rightarrow> bfVMValue \<Rightarrow> bfVMValue \<Rightarrow> bool" where
  "bfVMValue_gt p lhs rhs =
     (if bfVMValue_isNumber lhs \<and> bfVMValue_isNumber rhs
      then dbl_gt p (bfVMValue_asNumber lhs) (bfVMValue_asNumber rhs)
      else lhs > rhs)"

definition bfVMValue_ge :: "vm_prims \<Rightarrow> bfVMValue \<Rightarrow> bfVMValue \<Rightarrow> bool" where
  "bfVMValue_ge p lhs rhs =
     (if bfVMValue_isNumber lhs \<and> bfVMValue_isNumber rhs
      then dbl_ge p (bfVMValue_asNumber lhs) (bfVMValue_asNumber rhs)
      else lhs \<ge> rhs)"


section \<open>The interpreter (bifrost\_vm\_api.c)\<close>

definition heap_fn :: "BifrostVM \<Rightarrow> 64 word \<Rightarrow> BifrostObjFn option" where
  "heap_fn vm a = (case vm_heap vm a of Some (ObjFn f) \<Rightarrow> Some f | _ \<Rightarrow> None)"

text \<open>\<open>locals\<close> is \<open>self->stack + frame->stack\<close>.\<close>

definition locals_get :: "BifrostVM \<Rightarrow> BifrostVMStackFrame \<Rightarrow> nat \<Rightarrow> bfVMValue" where
  "locals_get vm frame i = vm_stack vm (fr_stack frame + i)"

definition locals_set :: "BifrostVM \<Rightarrow> BifrostVMStackFrame \<Rightarrow> nat \<Rightarrow> bfVMValue \<Rightarrow> BifrostVM" where
  "locals_set vm frame i v = vm\<lparr>vm_stack := (vm_stack vm)(fr_stack frame + i := v)\<rparr>"

definition bfVM_ensureStackspace :: "BifrostVM \<Rightarrow> nat \<Rightarrow> nat \<Rightarrow> bool \<times> BifrostVM" where
  "bfVM_ensureStackspace vm stack_space top_ptr =
     (let stack_size = vm_stack_size vm;
          stack_used = top_ptr;
          requested_size = stack_used + stack_space
      in if stack_size < requested_size
         then (True, vm\<lparr>vm_stack_size := requested_size\<rparr>)
         else (False, vm))"

text \<open>
  \<open>bfVM_pushCallFrame\<close>; \<open>fn = 0\<close> is the native frame.  The instruction pointer of a
  frame is the index into its function's instruction vector.  \<open>None\<close>: \<open>fn\<close> does not
  point to a function object.
\<close>

definition bfVM_pushCallFrame :: "BifrostVM \<Rightarrow> 64 word \<Rightarrow> nat \<Rightarrow> BifrostVM option" where
  "bfVM_pushCallFrame vm fn new_start =
     (let old_top = vm_stack_top vm;
          new_frame = \<lparr>fr_fn = fn, fr_ip = 0, fr_old_stack = old_top, fr_stack = new_start\<rparr>
      in if fn \<noteq> 0
         then (case heap_fn vm fn of
                 None \<Rightarrow> None
               | Some f \<Rightarrow>
                   let stack_space = new_start + fn_needed_stack_space f;
                       grown = bfVM_ensureStackspace vm stack_space (vm_stack_top vm);
                       vm1 = (if fst grown then (snd grown)\<lparr>vm_stack_top := stack_space\<rparr>
                              else snd grown)
                   in Some (vm1\<lparr>vm_frames := vm_frames vm1 @ [new_frame]\<rparr>))
         else Some (vm\<lparr>vm_stack_top := new_start, vm_frames := vm_frames vm @ [new_frame]\<rparr>))"

definition bfVM_popCallFrame :: "BifrostVM \<Rightarrow> BifrostVMStackFrame \<Rightarrow> BifrostVM" where
  "bfVM_popCallFrame vm frame =
     vm\<lparr>vm_stack_top := fr_old_stack frame, vm_frames := butlast (vm_frames vm)\<rparr>"

text \<open>
  \<open>bfVM_popAllCallFrames\<close>: \<open>ref_frame\<close> is given by its index in the frame array.
  With an error callback, the trace is reported (begin, the message, one call for each
  frame, end) and \<open>last_error\<close> is overwritten with the line of each frame in turn.
\<close>

fun stack_trace_frames :: "nat list \<Rightarrow> BifrostVM \<Rightarrow> BifrostVM" where
  "stack_trace_frames [] vm = vm"
| "stack_trace_frames (i # rest) vm =
     stack_trace_frames rest
       (vm\<lparr>vm_last_error := ErrTextStackFrame i,
           vm_events := vm_events vm @ [EvErrorFn BIFROST_VM_ERROR_STACK_TRACE]\<rparr>)"

definition bfVM_popAllCallFrames :: "BifrostVM \<Rightarrow> nat \<Rightarrow> BifrostVM" where
  "bfVM_popAllCallFrames vm ref_frame =
     (let num_frames = ref_frame;
          total_frames = length (vm_frames vm);
          vm1 = (if vm_error_fn vm
                 then (let a = vm\<lparr>vm_events := vm_events vm
                                   @ [EvErrorFn BIFROST_VM_ERROR_STACK_TRACE_BEGIN,
                                      EvErrorFn BIFROST_VM_ERROR_STACK_TRACE]\<rparr>;
                           b = stack_trace_frames [num_frames ..< total_frames] a
                       in b\<lparr>vm_events := vm_events b @ [EvErrorFn BIFROST_VM_ERROR_STACK_TRACE_END]\<rparr>)
                 else vm)
      in vm1\<lparr>vm_stack_top := fr_old_stack (vm_frames vm ! ref_frame),
             vm_frames := take num_frames (vm_frames vm1)\<rparr>)"

text \<open>
  How the body of one \<open>case\<close> of the dispatch \<open>switch\<close> leaves: \<open>break\<close> (the loop then
  does \<open>++frame->ip\<close>), \<open>continue\<close>, \<open>goto frame_start\<close>, \<open>goto halt\<close>, or
  \<open>BF_RUNTIME_ERROR\<close>.  \<open>OpUndefined\<close> stands for a read through a pointer or an index
  that has nothing behind it.
\<close>

datatype op_exit =
    OpBreak BifrostVM
  | OpContinue BifrostVM
  | OpFrameStart BifrostVM
  | OpHalt BifrostVM
  | OpRuntimeError runtime_error BifrostVM
  | OpUndefined

definition frame_set_ip :: "BifrostVM \<Rightarrow> int \<Rightarrow> BifrostVM" where
  "frame_set_ip vm ip =
     vm\<lparr>vm_frames := butlast (vm_frames vm) @ [(last (vm_frames vm))\<lparr>fr_ip := ip\<rparr>]\<rparr>"

definition value_obj_type :: "BifrostVM \<Rightarrow> bfVMValue \<Rightarrow> BifrostObjType option" where
  "value_obj_type vm v = map_option obj_type (vm_heap vm (bfVMValue_asPointer v))"

definition exec_LOAD_BASIC ::
    "BifrostVM \<Rightarrow> BifrostVMStackFrame \<Rightarrow> BifrostObjFn \<Rightarrow> nat \<Rightarrow> nat \<Rightarrow> op_exit" where
  "exec_LOAD_BASIC vm frame fn ra rbx =
     (let action = rbx
      in if action < 3
         then OpBreak (locals_set vm frame ra ([k_VMValueTrue, k_VMValueFalse, k_VMValueNull] ! action))
         else if action = 3
         then OpBreak (locals_set vm frame ra (bfVMValue_fromPointer (fn_module fn)))
         else if rbx - 4 < length (fn_constants fn)
         then OpBreak (locals_set vm frame ra (fn_constants fn ! (rbx - 4)))
         else OpUndefined)"

definition exec_NEW_CLZ ::
    "vm_prims \<Rightarrow> BifrostVM \<Rightarrow> BifrostVMStackFrame \<Rightarrow> nat \<Rightarrow> nat \<Rightarrow> op_exit" where
  "exec_NEW_CLZ p vm frame ra rbx =
     (let v = locals_get vm frame rbx
      in if bfVMValue_isPointer v
         then (case vm_heap vm (bfVMValue_asPointer v) of
                 None \<Rightarrow> OpUndefined
               | Some (ObjClass clz) \<Rightarrow>
                   (let r = prim_new_instance p vm (bfVMValue_asPointer v)
                    in OpBreak (locals_set (snd r) frame ra (bfVMValue_fromPointer (fst r))))
               | Some other \<Rightarrow> OpRuntimeError ErrNewNonClass vm)
         else OpRuntimeError ErrNewNonClass vm)"

text \<open>The last part of \<open>CALL_FN\<close>: the callee \<open>obj\<close> is a function, a native function, or not callable.\<close>

definition exec_call_obj ::
    "vm_prims \<Rightarrow> BifrostVM \<Rightarrow> BifrostVMStackFrame \<Rightarrow> 64 word \<Rightarrow> nat \<Rightarrow> nat \<Rightarrow> op_exit" where
  "exec_call_obj p vm frame obj num_args new_stack =
     (case vm_heap vm obj of
        None \<Rightarrow> OpUndefined
      | Some (ObjFn fn) \<Rightarrow>
          if fn_arity fn \<ge> 0 \<and> int num_args \<noteq> fn_arity fn
          then OpRuntimeError (ErrFunctionArity num_args (fn_arity fn)) vm
          else (case bfVM_pushCallFrame (frame_set_ip vm (fr_ip frame + 1)) obj new_stack of
                  None \<Rightarrow> OpUndefined
                | Some vm1 \<Rightarrow> OpFrameStart vm1)
      | Some (ObjNativeFn fn) \<Rightarrow>
          if nat_arity fn \<ge> 0 \<and> int num_args \<noteq> nat_arity fn
          then OpRuntimeError (ErrNativeArity num_args (nat_arity fn)) vm
          else (case bfVM_pushCallFrame vm 0 new_stack of
                  None \<Rightarrow> OpUndefined
                | Some vm1 \<Rightarrow>
                    let native_frame = length (vm_frames vm);
                        vm2 = vm1\<lparr>vm_current_native_fn := obj,
                                  vm_events := vm_events vm1 @ [EvNativeCall (nat_value fn) (int num_args)]\<rparr>;
                        vm3 = prim_native p (nat_value fn) vm2 (int num_args);
                        vm4 = vm3\<lparr>vm_current_native_fn := 0\<rparr>
                    in if native_frame < length (vm_frames vm4)
                       then OpBreak (bfVM_popCallFrame vm4 (vm_frames vm4 ! native_frame))
                       else OpUndefined)
      | Some other \<Rightarrow> OpRuntimeError ErrNotCallable vm)"

definition exec_CALL_FN ::
    "vm_prims \<Rightarrow> BifrostVM \<Rightarrow> BifrostVMStackFrame \<Rightarrow> nat \<Rightarrow> nat \<Rightarrow> nat \<Rightarrow> op_exit" where
  "exec_CALL_FN p vm frame ra rb rc =
     (let v = locals_get vm frame rb;
          new_stack = fr_stack frame + ra;
          num_args = rc
      in if bfVMValue_isPointer v
         then (let instance = bfVMValue_asPointer v
               in case vm_heap vm instance of
                    None \<Rightarrow> OpUndefined
                  | Some o0 \<Rightarrow>
                     (let obj = (if (obj_type o0 = BIFROST_VM_OBJ_INSTANCE
                                      \<or> obj_type o0 = BIFROST_VM_OBJ_REFERENCE
                                      \<or> obj_type o0 = BIFROST_VM_OBJ_WEAK_REF)
                                     \<and> instance_clz o0 \<noteq> 0
                                 then instance_clz o0 else instance)
                      in case vm_heap vm obj of
                           None \<Rightarrow> OpUndefined
                         | Some (ObjClass clz) \<Rightarrow>
                             (let call_sym = vm_build_in_symbol_call vm
                              in if call_sym < length (clz_symbols clz)
                                 then (let call_value = clz_symbols clz ! call_sym
                                       in if bfVMValue_isPointer call_value
                                          then (let call_obj = bfVMValue_asPointer call_value
                                                in case value_obj_type vm call_value of
                                                     None \<Rightarrow> OpUndefined
                                                   | Some t \<Rightarrow>
                                                      if t \<noteq> BIFROST_VM_OBJ_FUNCTION \<and> t \<noteq> BIFROST_VM_OBJ_NATIVE_FN
                                                      then OpRuntimeError ErrCallMustBeFunction vm
                                                      else (let vm1 = snd (bfVM_ensureStackspace vm (num_args + 1) (fr_stack frame + ra));
                                                                moved = (\<lambda>i. if new_stack + 1 \<le> i \<and> i < new_stack + 1 + num_args
                                                                             then vm_stack vm1 (i - 1) else vm_stack vm1 i);
                                                                vm2 = vm1\<lparr>vm_stack := moved(new_stack := bfVMValue_fromPointer instance)\<rparr>
                                                            in exec_call_obj p vm2 frame call_obj (num_args + 1) new_stack))
                                          else OpRuntimeError ErrCallMustBeFunction vm)
                                 else OpRuntimeError ErrNoCallFunction vm)
                         | Some other \<Rightarrow> exec_call_obj p vm frame obj num_args new_stack))
         else OpRuntimeError ErrNotPointerToCall vm)"

definition exec_MATH_ADD ::
    "vm_prims \<Rightarrow> BifrostVM \<Rightarrow> BifrostVMStackFrame \<Rightarrow> nat \<Rightarrow> nat \<Rightarrow> nat \<Rightarrow> op_exit" where
  "exec_MATH_ADD p vm frame ra rb rc =
     (let lhs = locals_get vm frame rb;
          rhs = locals_get vm frame rc
      in if bfVMValue_isNumber lhs \<and> bfVMValue_isNumber rhs
         then OpBreak (locals_set vm frame ra
                (bfVMValue_fromNumber (dbl_add p (bfVMValue_asNumber lhs) (bfVMValue_asNumber rhs))))
         else if (bfVMValue_isPointer lhs \<and> value_obj_type vm lhs = Some BIFROST_VM_OBJ_STRING)
                 \<or> (bfVMValue_isPointer rhs \<and> value_obj_type vm rhs = Some BIFROST_VM_OBJ_STRING)
         then (let r = prim_concat p vm lhs rhs
               in OpBreak (locals_set (snd r) frame ra (bfVMValue_fromPointer (fst r))))
         else OpRuntimeError ErrAddIncompatible vm)"

definition exec_MATH_SUB ::
    "vm_prims \<Rightarrow> BifrostVM \<Rightarrow> BifrostVMStackFrame \<Rightarrow> nat \<Rightarrow> nat \<Rightarrow> nat \<Rightarrow> op_exit" where
  "exec_MATH_SUB p vm frame ra rb rc =
     (let lhs = locals_get vm frame rb;
          rhs = locals_get vm frame rc
      in if \<not> bfVMValue_isNumber lhs \<or> \<not> bfVMValue_isNumber rhs
         then OpRuntimeError ErrSubNonNumber vm
         else OpBreak (locals_set vm frame ra (bfVMValue_sub p lhs rhs)))"

text \<open>
  One turn of the \<open>while (true)\<close> loop of \<open>bfVM_execTopFrame\<close>: fetch and decode
  \<open>*frame->ip\<close> of the top frame and run the matching \<open>case\<close>, in the order of the
  source; an opcode with no \<open>case\<close> reaches \<open>default\<close>.
\<close>

definition exec_inst :: "vm_prims \<Rightarrow> BifrostVM \<Rightarrow> op_exit" where
  "exec_inst p vm =
     (if vm_frames vm = [] then OpUndefined
      else let frame = last (vm_frames vm)
       in case heap_fn vm (fr_fn frame) of
            None \<Rightarrow> OpUndefined
          | Some fn \<Rightarrow>
             if fr_ip frame < 0 \<or> fr_ip frame \<ge> int (length (fn_instructions fn)) then OpUndefined
             else
              let inst = fn_instructions fn ! nat (fr_ip frame);
                  opc = bfInst_decodeOp inst;
                  ra = unat (bfInst_decodeRa inst);
                  rb = unat (bfInst_decodeRb inst);
                  rc = unat (bfInst_decodeRc inst);
                  rbx = unat (bfInst_decodeRBx inst);
                  rsbx = bfInst_decodeRsBx inst;
                  opm = opc AND BIFROST_INST_OP_MASK
              in if opm = op_code BIFROST_VM_OP_RETURN
                 then OpHalt (locals_set vm frame 0 (locals_get vm frame rbx))
                 else if opm = op_code BIFROST_VM_OP_LOAD_SYMBOL
                 then (case prim_load_symbol p vm ra rb rc of
                         Inl e \<Rightarrow> OpRuntimeError e vm | Inr vm1 \<Rightarrow> OpBreak vm1)
                 else if opm = op_code BIFROST_VM_OP_STORE_SYMBOL
                 then (case prim_store_symbol p vm ra rb rc of
                         Inl e \<Rightarrow> OpRuntimeError e vm | Inr vm1 \<Rightarrow> OpBreak vm1)
                 else if opm = op_code BIFROST_VM_OP_LOAD_BASIC
                 then exec_LOAD_BASIC vm frame fn ra rbx
                 else if opm = op_code BIFROST_VM_OP_NEW_CLZ
                 then exec_NEW_CLZ p vm frame ra rbx
                 else if opm = op_code BIFROST_VM_OP_NOT
                 then OpBreak (locals_set vm frame ra
                        (bfVMValue_fromBool (bfVMValue_isThuthy (locals_get vm frame rbx))))
                 else if opm = op_code BIFROST_VM_OP_STORE_MOVE
                 then OpBreak (locals_set vm frame ra (locals_get vm frame rbx))
                 else if opm = op_code BIFROST_VM_OP_CALL_FN
                 then exec_CALL_FN p vm frame ra rb rc
                 else if opm = op_code BIFROST_VM_OP_MATH_ADD
                 then exec_MATH_ADD p vm frame ra rb rc
                 else if opm = op_code BIFROST_VM_OP_MATH_SUB
                 then exec_MATH_SUB p vm frame ra rb rc
                 else if opm = op_code BIFROST_VM_OP_MATH_MUL
                 then OpBreak (locals_set vm frame ra
                        (bfVMValue_mul p (locals_get vm frame rb) (locals_get vm frame rc)))
                 else if opm = op_code BIFROST_VM_OP_MATH_DIV
                 then OpBreak (locals_set vm frame ra
                        (bfVMValue_div p (locals_get vm frame rb) (locals_get vm frame rc)))
                 else if opm = op_code BIFROST_VM_OP_CMP_EE
                 then (case bfVMValue_ee p (vm_heap vm) (locals_get vm frame rb) (locals_get vm frame rc) of
                         None \<Rightarrow> OpUndefined
                       | Some b \<Rightarrow> OpBreak (locals_set vm frame ra (bfVMValue_fromBool b)))
                 else if opm = op_code BIFROST_VM_OP_CMP_NE
                 then (case bfVMValue_ee p (vm_heap vm) (locals_get vm frame rb) (locals_get vm frame rc) of
                         None \<Rightarrow> OpUndefined
                       | Some b \<Rightarrow> OpBreak (locals_set vm frame ra (bfVMValue_fromBool (\<not> b))))
                 else if opm = op_code BIFROST_VM_OP_CMP_LT
                 then OpBreak (locals_set vm frame ra
                        (bfVMValue_fromBool (bfVMValue_lt p (locals_get vm frame rb) (locals_get vm frame rc))))
                 else if opm = op_code BIFROST_VM_OP_CMP_GT
                 then OpBreak (locals_set vm frame ra
                        (bfVMValue_fromBool (bfVMValue_gt p (locals_get vm frame rb) (locals_get vm frame rc))))
                 else if opm = op_code BIFROST_VM_OP_CMP_GE
                 then OpBreak (locals_set vm frame ra
                        (bfVMValue_fromBool (bfVMValue_ge p (locals_get vm frame rb) (locals_get vm frame rc))))
                 else if opm = op_code BIFROST_VM_OP_CMP_AND
                 then OpBreak (locals_set vm frame ra
                        (bfVMValue_fromBool (bfVMValue_isThuthy (locals_get vm frame rb)
                                              \<and> bfVMValue_isThuthy (locals_get vm frame rc))))
                 else if opm = op_code BIFROST_VM_OP_CMP_OR
                 then OpBreak (locals_set vm frame ra
                        (bfVMValue_fromBool (bfVMValue_isThuthy (locals_get vm frame rb)
                                              \<or> bfVMValue_isThuthy (locals_get vm frame rc))))
                 else if opm = op_code BIFROST_VM_OP_JUMP
                 then OpContinue (frame_set_ip vm (fr_ip frame + rsbx))
                 else if opm = op_code BIFROST_VM_OP_JUMP_IF
                 then (if bfVMValue_isThuthy (locals_get vm frame ra)
                       then OpContinue (frame_set_ip vm (fr_ip frame + rsbx))
                       else OpBreak vm)
                 else if opm = op_code BIFROST_VM_OP_JUMP_IF_NOT
                 then (if \<not> bfVMValue_isThuthy (locals_get vm frame ra)
                       then OpContinue (frame_set_ip vm (fr_ip frame + rsbx))
                       else OpBreak vm)
                 else OpRuntimeError (ErrInvalidOp (unat opc)) vm)"

text \<open>
  The result of running the machine: it returns an error code and a state, the fuel
  given to the loop is used up (the loop has no bound of its own), a read had nothing
  behind it, or a \<open>LibC_assert\<close> failed.
\<close>

datatype exec_result =
    ExecDone BifrostVMError BifrostVM
  | ExecOutOfFuel
  | ExecUndefined
  | ExecAssertFailed

text \<open>
  The loop of \<open>bfVM_execTopFrame\<close> with its three labels; \<open>reference_frame\<close> is the
  index of the frame the call started with.
\<close>

fun exec_loop :: "vm_prims \<Rightarrow> nat \<Rightarrow> nat \<Rightarrow> BifrostVM \<Rightarrow> exec_result" where
  "exec_loop p 0 reference_frame vm = ExecOutOfFuel"
| "exec_loop p (Suc fuel) reference_frame vm =
     (case exec_inst p vm of
        OpBreak vm1 \<Rightarrow>
          exec_loop p fuel reference_frame (frame_set_ip vm1 (fr_ip (last (vm_frames vm1)) + 1))
      | OpContinue vm1 \<Rightarrow> exec_loop p fuel reference_frame vm1
      | OpFrameStart vm1 \<Rightarrow> exec_loop p fuel reference_frame vm1
      | OpHalt vm1 \<Rightarrow>
          (let frame = length (vm_frames vm1) - 1;
               vm2 = bfVM_popCallFrame vm1 (last (vm_frames vm1))
           in if reference_frame < frame
              then exec_loop p fuel reference_frame vm2
              else ExecDone BIFROST_VM_ERROR_NONE vm2)
      | OpRuntimeError e vm1 \<Rightarrow>
          ExecDone BIFROST_VM_ERROR_RUNTIME
            (bfVM_popAllCallFrames (vm1\<lparr>vm_last_error := ErrTextRuntime e\<rparr>) reference_frame)
      | OpUndefined \<Rightarrow> ExecUndefined)"




section \<open>The binary-operator parselet (bifrost\_vm\_parser.c, bifrost\_vm\_lexer.h)\<close>

text \<open>
  The token types whose row in \<open>BIFROST_TOKEN_XTABLE\<close> names \<open>Expr_parseBinOp\<close> as
  the infix parselet (the other token types never reach it).
\<close>

datatype bfTokenType =
    BIFROST_TOKEN_PLUS
  | BIFROST_TOKEN_MINUS
  | BIFROST_TOKEN_MULT
  | BIFROST_TOKEN_DIV
  | BIFROST_TOKEN_CTRL_EE
  | BIFROST_TOKEN_CTRL_LT
  | BIFROST_TOKEN_CTRL_GT
  | BIFROST_TOKEN_CTRL_LE
  | BIFROST_TOKEN_CTRL_GE
  | BIFROST_TOKEN_CTRL_OR
  | BIFROST_TOKEN_CTRL_AND
  | BIFROST_TOKEN_CTRL_NE

text \<open>
  The \<open>switch\<close> at the head of \<open>Expr_parseBinOp\<close>: the opcode chosen from the first
  character of the operator token and the token type, and whether
  "Invalid Binary Operator" is reported (the opcode then stays \<open>CMP_EE\<close>).
\<close>

definition Expr_parseBinOp_inst :: "char \<Rightarrow> bfTokenType \<Rightarrow> bfInstructionOp \<times> bool" where
  "Expr_parseBinOp_inst bin_op token_type =
     (if bin_op = CHR ''='' then (BIFROST_VM_OP_CMP_EE, False)
      else if bin_op = CHR ''!'' then (BIFROST_VM_OP_CMP_NE, False)
      else if bin_op = CHR ''+'' then (BIFROST_VM_OP_MATH_ADD, False)
      else if bin_op = CHR ''-'' then (BIFROST_VM_OP_MATH_SUB, False)
      else if bin_op = CHR ''*'' then (BIFROST_VM_OP_MATH_MUL, False)
      else if bin_op = CHR ''/'' then (BIFROST_VM_OP_MATH_DIV, False)
      else if bin_op = CHR ''%'' then (BIFROST_VM_OP_MATH_MOD, False)
      else if bin_op = CHR ''^'' then (BIFROST_VM_OP_MATH_POW, False)
      else if bin_op = CHR ''|'' then (BIFROST_VM_OP_CMP_OR, False)
      else if bin_op = CHR ''&'' then (BIFROST_VM_OP_CMP_AND, False)
      else if bin_op = CHR ''<''
      then (if token_type = BIFROST_TOKEN_CTRL_LE then BIFROST_VM_OP_CMP_LE else BIFROST_VM_OP_CMP_LT, False)
      else if bin_op = CHR ''>''
      then (if token_type = BIFROST_TOKEN_CTRL_GE then BIFROST_VM_OP_CMP_GE else BIFROST_VM_OP_CMP_GT, False)
      else (BIFROST_VM_OP_CMP_EE, True))"


section \<open>A small machine state\<close>

text \<open>
  A state to run single instructions in: a caller at address \<open>0x1000\<close> whose code is
  given, a two-parameter function at \<open>0x2000\<close>, a variadic function at \<open>0x3000\<close> and the
  empty string at \<open>0x4000\<close>; one frame, at the first instruction of the caller, with
  its locals at the bottom of the stack.
\<close>

definition example_fn :: "bfInstruction list \<Rightarrow> int \<Rightarrow> BifrostObjFn" where
  "example_fn code n =
     \<lparr>fn_name = ''f'', fn_arity = n, fn_constants = [], fn_instructions = code,
      fn_needed_stack_space = 8, fn_module = 0x5000\<rparr>"

definition example_heap :: "bfInstruction list \<Rightarrow> 64 word \<Rightarrow> BifrostObj option" where
  "example_heap code a =
     (if a = 0x1000 then Some (ObjFn (example_fn code 0))
      else if a = 0x2000 then Some (ObjFn (example_fn [] 2))
      else if a = 0x3000 then Some (ObjFn (example_fn [] (- 1)))
      else if a = 0x4000 then Some (ObjStr \<lparr>str_value = [], str_hash = 0x811c9dc5\<rparr>)
      else if a = 0x5000 then Some (ObjModule ''main'')
      else None)"

definition example_vm :: "bfInstruction list \<Rightarrow> (nat \<Rightarrow> bfVMValue) \<Rightarrow> BifrostVM" where
  "example_vm code locals =
     \<lparr>vm_heap = example_heap code,
      vm_frames = [\<lparr>fr_fn = 0x1000, fr_ip = 0, fr_old_stack = 0, fr_stack = 0\<rparr>],
      vm_stack = locals,
      vm_stack_size = 16,
      vm_stack_top = 8,
      vm_symbols = [''ctor'', ''dtor'', ''call''],
      vm_modules = replicate 128 [],
      vm_last_error = ErrTextEmpty,
      vm_build_in_symbol_call = 2,
      vm_current_native_fn = 0,
      vm_error_fn = False,
      vm_module_fn = False,
      vm_events = []\<rparr>"

text \<open>
  \<open>at_inst vm fn inst\<close>: the top frame of \<open>vm\<close> runs the function object \<open>fn\<close> and its
  instruction pointer points to the instruction word \<open>inst\<close> of that function.
\<close>

definition at_inst :: "BifrostVM \<Rightarrow> BifrostObjFn \<Rightarrow> bfInstruction \<Rightarrow> bool" where
  "at_inst vm fn inst =
     (vm_frames vm \<noteq> []
      \<and> heap_fn vm (fr_fn (last (vm_frames vm))) = Some fn
      \<and> 0 \<le> fr_ip (last (vm_frames vm))
      \<and> fr_ip (last (vm_frames vm)) < int (length (fn_instructions fn))
      \<and> fn_instructions fn ! nat (fr_ip (last (vm_frames vm))) = inst)"

text \<open>Locals with nil in slot 1 and the number \<open>0.0\<close> elsewhere.\<close>

definition nil_locals :: "nat \<Rightarrow> bfVMValue" where
  "nil_locals i = (if i = 1 then k_VMValueNull else 0)"

text \<open>
  Primitives for running the small state: the instructions run there use none of
  them, so each is the simplest function of its type (arithmetic returns its left
  operand, comparison is equality of patterns, object operations fail or change nothing).
\<close>

definition example_prims :: vm_prims where
  "example_prims =
     \<lparr>dbl_add = (\<lambda>a b. a), dbl_sub = (\<lambda>a b. a), dbl_mul = (\<lambda>a b. a), dbl_div = (\<lambda>a b. a),
      dbl_eq = (\<lambda>a b. a = b), dbl_lt = (\<lambda>a b. False), dbl_gt = (\<lambda>a b. False),
      dbl_ge = (\<lambda>a b. a = b),
      prim_load_symbol = (\<lambda>vm a b c. Inl ErrSymbolNotDefined),
      prim_store_symbol = (\<lambda>vm a b c. Inl ErrStoreNonObject),
      prim_new_instance = (\<lambda>vm c. (0, vm)),
      prim_concat = (\<lambda>vm a b. (0, vm)),
      prim_native = (\<lambda>n vm k. vm)\<rparr>"



text \<open>
  The small state as the host sees it between two runs: no call frame, the stack
  window of the host at \<open>vm_stack_top\<close>.
\<close>

definition example_host_vm :: "(nat \<Rightarrow> bfVMValue) \<Rightarrow> BifrostVM" where
  "example_host_vm locals = (example_vm [] locals)\<lparr>vm_frames := []\<rparr>"


section \<open>The function builder (bifrost\_vm\_function\_builder.c)\<close>

text \<open>
  A \<open>string_range\<close> is the bytes it spans; the range \<open>(NULL, 0)\<close> of a temporary is the
  empty list.  The scope counts are C \<open>int\<close>s that only count up from 0.
\<close>

type_synonym string_range = string

record BifrostVMFunctionBuilder =
  fb_name :: string
  fb_constants :: "bfVMValue list"
  fb_local_vars :: "string_range list"
  fb_local_var_scope_size :: "nat list"
  fb_instructions :: "bfInstruction list"
  fb_code_to_line :: "16 word list"
  fb_max_local_idx :: nat

definition bfFuncBuilder_ctor :: BifrostVMFunctionBuilder where
  "bfFuncBuilder_ctor =
     \<lparr>fb_name = [], fb_constants = [], fb_local_vars = [], fb_local_var_scope_size = [],
      fb_instructions = [], fb_code_to_line = [], fb_max_local_idx = 0\<rparr>"

definition bfFuncBuilder_pushScope :: "BifrostVMFunctionBuilder \<Rightarrow> BifrostVMFunctionBuilder" where
  "bfFuncBuilder_pushScope self =
     self\<lparr>fb_local_var_scope_size := fb_local_var_scope_size self @ [0]\<rparr>"

definition bfFuncBuilder_begin :: "BifrostVMFunctionBuilder \<Rightarrow> string \<Rightarrow> BifrostVMFunctionBuilder" where
  "bfFuncBuilder_begin self name =
     bfFuncBuilder_pushScope
       (self\<lparr>fb_name := name, fb_constants := [], fb_instructions := [], fb_code_to_line := [],
             fb_local_vars := [], fb_local_var_scope_size := []\<rparr>)"

text \<open>
  \<open>bfFuncBuilder__getVariable\<close> compares with \<open>bfVMString_ccmpn(name, var->str_bgn, length)\<close>,
  whose first step reads the length header in front of \<open>name\<close>.  \<open>name\<close> points into the
  source text, not to a \<open>BifrostString\<close>, so what is read there is not determined by the
  builder: it is the parameter \<open>hdr\<close>.  The loop runs \<open>i\<close> from \<open>end - 1\<close> down to 0; the
  function below is called with \<open>end\<close> and does the step for \<open>i = end - 1\<close>.  The outer
  \<open>None\<close> is the failed assertion "Invalid indexing"; the inner \<open>None\<close> is
  \<open>BIFROST_ARRAY_INVALID_INDEX\<close>.
\<close>

fun getVariable_loop ::
    "(string \<Rightarrow> nat) \<Rightarrow> string_range list \<Rightarrow> string \<Rightarrow> nat \<Rightarrow> nat option option" where
  "getVariable_loop hdr vars name 0 = Some None"
| "getVariable_loop hdr vars name (Suc i) =
     (if \<not> length vars > i then None
      else if length name = length (vars ! i)
              \<and> (if length name > hdr name then - 1 else LibC_strncmp name (vars ! i) (length name)) = 0
      then Some (Some i)
      else getVariable_loop hdr vars name i)"

definition bfFuncBuilder__getVariable ::
    "(string \<Rightarrow> nat) \<Rightarrow> BifrostVMFunctionBuilder \<Rightarrow> string \<Rightarrow> bool \<Rightarrow> nat option option" where
  "bfFuncBuilder__getVariable hdr self name in_current_scope =
     (if fb_local_var_scope_size self = [] then None
      else let count = last (fb_local_var_scope_size self);
               end_idx = (if in_current_scope then count else length (fb_local_vars self))
       in getVariable_loop hdr (fb_local_vars self) name end_idx)"

text \<open>
  \<open>bfFuncBuilder_declVariable\<close> returns the slot and whether "already declared" was
  reported.
\<close>

definition bfFuncBuilder_declVariable ::
    "(string \<Rightarrow> nat) \<Rightarrow> BifrostVMFunctionBuilder \<Rightarrow> string
       \<Rightarrow> ((nat \<times> bool) \<times> BifrostVMFunctionBuilder) option" where
  "bfFuncBuilder_declVariable hdr self name =
     (case bfFuncBuilder__getVariable hdr self name True of
        None \<Rightarrow> None
      | Some (Some prev_decl) \<Rightarrow> Some ((prev_decl, True), self)
      | Some None \<Rightarrow>
          let var_loc = length (fb_local_vars self);
              self1 = self\<lparr>fb_local_vars := fb_local_vars self @ [name],
                           fb_local_var_scope_size :=
                             butlast (fb_local_var_scope_size self)
                               @ [last (fb_local_var_scope_size self) + 1]\<rparr>;
              self2 = (if fb_max_local_idx self1 < var_loc
                       then self1\<lparr>fb_max_local_idx := var_loc\<rparr> else self1)
          in Some ((var_loc, False), self2))"

text \<open>\<open>bfFuncBuilder_pushTemp\<close>; \<open>num_temps\<close> and the result are \<open>uint16_t\<close>.\<close>

definition bfFuncBuilder_pushTemp ::
    "BifrostVMFunctionBuilder \<Rightarrow> 16 word \<Rightarrow> 16 word \<times> BifrostVMFunctionBuilder" where
  "bfFuncBuilder_pushTemp self num_temps =
     (let var_loc = length (fb_local_vars self);
          var_loc_end = var_loc + unat num_temps;
          self1 = self\<lparr>fb_local_vars := fb_local_vars self @ replicate (unat num_temps) []\<rparr>;
          self2 = (if fb_max_local_idx self1 < var_loc_end
                   then self1\<lparr>fb_max_local_idx := var_loc_end\<rparr> else self1)
      in (of_nat var_loc, self2))"

text \<open>
  \<open>bfFuncBuilder_popTemp\<close> sets the size of \<open>local_vars\<close> to \<open>start\<close>.  When that is
  more than the size, the array grows by slots that were never written; \<open>None\<close> then.
\<close>

definition bfFuncBuilder_popTemp ::
    "BifrostVMFunctionBuilder \<Rightarrow> 16 word \<Rightarrow> BifrostVMFunctionBuilder option" where
  "bfFuncBuilder_popTemp self start =
     (if unat start \<le> length (fb_local_vars self)
      then Some (self\<lparr>fb_local_vars := take (unat start) (fb_local_vars self)\<rparr>)
      else None)"

text \<open>
  \<open>bfFuncBuilder_popScope\<close>: \<open>None\<close> without a scope, or when the scope counts more
  variables than there are (the unsigned \<open>num_vars - count\<close> would wrap).
\<close>

definition bfFuncBuilder_popScope :: "BifrostVMFunctionBuilder \<Rightarrow> BifrostVMFunctionBuilder option" where
  "bfFuncBuilder_popScope self =
     (if fb_local_var_scope_size self = [] then None
      else let count = last (fb_local_var_scope_size self);
               num_vars = length (fb_local_vars self)
       in if count \<le> num_vars
          then Some (self\<lparr>fb_local_vars := take (num_vars - count) (fb_local_vars self),
                          fb_local_var_scope_size := butlast (fb_local_var_scope_size self)\<rparr>)
          else None)"

text \<open>\<open>bfFuncBuilder_addInst\<close>; \<open>line\<close> is \<open>*self->current_line_no\<close>, cut to 16 bits.\<close>

definition bfFuncBuilder_addInst ::
    "BifrostVMFunctionBuilder \<Rightarrow> nat \<Rightarrow> bfInstruction \<Rightarrow> BifrostVMFunctionBuilder" where
  "bfFuncBuilder_addInst self line inst =
     self\<lparr>fb_code_to_line := fb_code_to_line self @ [of_nat line],
          fb_instructions := fb_instructions self @ [inst]\<rparr>"

definition bfFuncBuilder_addInstABC ::
    "BifrostVMFunctionBuilder \<Rightarrow> nat \<Rightarrow> bfInstructionOp \<Rightarrow> 16 word \<Rightarrow> 16 word \<Rightarrow> 16 word
       \<Rightarrow> BifrostVMFunctionBuilder" where
  "bfFuncBuilder_addInstABC self line opc a b c =
     bfFuncBuilder_addInst self line (BIFROST_MAKE_INST_OP_ABC (op_code opc) (ucast a) (ucast b) (ucast c))"

definition bfFuncBuilder_addInstABx ::
    "BifrostVMFunctionBuilder \<Rightarrow> nat \<Rightarrow> bfInstructionOp \<Rightarrow> 16 word \<Rightarrow> 32 word
       \<Rightarrow> BifrostVMFunctionBuilder" where
  "bfFuncBuilder_addInstABx self line opc a bx =
     bfFuncBuilder_addInst self line (BIFROST_MAKE_INST_OP_ABx (op_code opc) (ucast a) bx)"

definition bfFuncBuilder_addInstAsBx ::
    "BifrostVMFunctionBuilder \<Rightarrow> nat \<Rightarrow> bfInstructionOp \<Rightarrow> 16 word \<Rightarrow> 32 word
       \<Rightarrow> BifrostVMFunctionBuilder" where
  "bfFuncBuilder_addInstAsBx self line opc a sbx =
     bfFuncBuilder_addInst self line (BIFROST_MAKE_INST_OP_AsBx (op_code opc) (ucast a) sbx)"

definition bfFuncBuilder_addInstBreak ::
    "BifrostVMFunctionBuilder \<Rightarrow> nat \<Rightarrow> BifrostVMFunctionBuilder" where
  "bfFuncBuilder_addInstBreak self line = bfFuncBuilder_addInst self line BIFROST_INST_INVALID"

text \<open>
  \<open>bfFuncBuilder_end\<close> fills the function object \<open>out\<close> (its module was set when the
  object was made).  \<open>needed_stack_space\<close> is computed in \<open>size_t\<close>: the \<open>int\<close> arity is
  converted to 64 bits and the sum wraps.
\<close>

definition bfFuncBuilder_end ::
    "BifrostVMFunctionBuilder \<Rightarrow> nat \<Rightarrow> BifrostObjFn \<Rightarrow> int
       \<Rightarrow> (BifrostVMFunctionBuilder \<times> BifrostObjFn) option" where
  "bfFuncBuilder_end self line out arity =
     (case bfFuncBuilder_popScope (bfFuncBuilder_addInstABx self line BIFROST_VM_OP_RETURN 0 0) of
        None \<Rightarrow> None
      | Some self1 \<Rightarrow>
          Some (self1\<lparr>fb_constants := []\<rparr>,
                out\<lparr>fn_name := fb_name self1,
                    fn_arity := arity,
                    fn_constants := fb_constants self1,
                    fn_instructions := fb_instructions self1,
                    fn_needed_stack_space :=
                      unat ((of_nat (fb_max_local_idx self1) :: 64 word) + of_int arity + 1)\<rparr>))"


section \<open>Loops and \<open>break\<close> in the parser (bifrost\_vm\_parser.c)\<close>

text \<open>
  The parser's \<open>loop_stack\<close> is the list of the \<open>body_start\<close> of the open loops, the
  innermost first; together with the current function builder it is the state that
  \<open>loopPush\<close> and \<open>loopPop\<close> work on.
\<close>

definition loopPush :: "BifrostVMFunctionBuilder \<Rightarrow> nat list \<Rightarrow> nat list" where
  "loopPush fn_builder loop_stack = length (fb_instructions fn_builder) # loop_stack"

text \<open>The \<open>for\<close> loop of \<open>loopPop\<close>, from index \<open>i\<close>.\<close>

function loopPop_patch :: "nat \<Rightarrow> nat \<Rightarrow> bfInstruction list \<Rightarrow> bfInstruction list" where
  "loopPop_patch i body_end insts =
     (if i < body_end
      then loopPop_patch (Suc i) body_end
             (if insts ! i = BIFROST_INST_INVALID
              then insts[i := BIFROST_MAKE_INST_OP_AsBx (op_code BIFROST_VM_OP_JUMP) 0 (of_nat (body_end - i))]
              else insts)
      else insts)"
  by pat_completeness auto
termination
  by (relation "measure (\<lambda>(i, body_end, insts). body_end - i)") auto

text \<open>\<open>loopPop\<close>; \<open>None\<close> is the failed assertion "Invalid Loop Pop".\<close>

definition loopPop ::
    "BifrostVMFunctionBuilder \<Rightarrow> nat list \<Rightarrow> (BifrostVMFunctionBuilder \<times> nat list) option" where
  "loopPop fn_builder loop_stack =
     (case loop_stack of
        [] \<Rightarrow> None
      | body_start # parent \<Rightarrow>
          let body_end = length (fb_instructions fn_builder)
          in Some (fn_builder\<lparr>fb_instructions :=
                      loopPop_patch body_start body_end (fb_instructions fn_builder)\<rparr>,
                   parent))"

text \<open>
  The instruction the interpreter runs after a \<open>JUMP\<close> at index \<open>i\<close>: the \<open>JUMP\<close> case adds
  the signed operand to the instruction pointer and does not increment it.
\<close>

definition jump_target :: "nat \<Rightarrow> bfInstruction \<Rightarrow> int" where
  "jump_target i inst = int i + bfInst_decodeRsBx inst"


section \<open>A build as a sequence of builder calls\<close>

text \<open>
  The parser drives one builder through a sequence of calls between
  \<open>bfFuncBuilder_begin\<close> and \<open>bfFuncBuilder_end\<close>.  \<open>builder_run\<close> performs such a
  sequence; \<open>None\<close> when a call fails as described above.
\<close>

datatype builder_op =
    CallDeclVariable string
  | CallPushTemp "16 word"
  | CallPopTemp "16 word"
  | CallPushScope
  | CallPopScope
  | CallAddInst nat bfInstruction

fun builder_step ::
    "(string \<Rightarrow> nat) \<Rightarrow> BifrostVMFunctionBuilder \<Rightarrow> builder_op \<Rightarrow> BifrostVMFunctionBuilder option" where
  "builder_step hdr b (CallDeclVariable name) = map_option snd (bfFuncBuilder_declVariable hdr b name)"
| "builder_step hdr b (CallPushTemp n) = Some (snd (bfFuncBuilder_pushTemp b n))"
| "builder_step hdr b (CallPopTemp start) = bfFuncBuilder_popTemp b start"
| "builder_step hdr b CallPushScope = Some (bfFuncBuilder_pushScope b)"
| "builder_step hdr b CallPopScope = bfFuncBuilder_popScope b"
| "builder_step hdr b (CallAddInst line inst) = Some (bfFuncBuilder_addInst b line inst)"

fun builder_run ::
    "(string \<Rightarrow> nat) \<Rightarrow> BifrostVMFunctionBuilder \<Rightarrow> builder_op list \<Rightarrow> BifrostVMFunctionBuilder option" where
  "builder_run hdr b [] = Some b"
| "builder_run hdr b (c # cs) =
     (case builder_step hdr b c of None \<Rightarrow> None | Some b1 \<Rightarrow> builder_run hdr b1 cs)"

text \<open>
  Following the specification's words, "the largest local/temporary slot index used
  during the build": the slots a call hands out are the slot \<open>declVariable\<close> returns and
  the \<open>num_temps\<close> slots from the one \<open>pushTemp\<close> returns.
\<close>

fun slots_of_call :: "(string \<Rightarrow> nat) \<Rightarrow> BifrostVMFunctionBuilder \<Rightarrow> builder_op \<Rightarrow> nat list" where
  "slots_of_call hdr b (CallDeclVariable name) =
     (case bfFuncBuilder_declVariable hdr b name of None \<Rightarrow> [] | Some r \<Rightarrow> [fst (fst r)])"
| "slots_of_call hdr b (CallPushTemp n) =
     [length (fb_local_vars b) ..< length (fb_local_vars b) + unat n]"
| "slots_of_call hdr b other = []"

fun slots_used :: "(string \<Rightarrow> nat) \<Rightarrow> BifrostVMFunctionBuilder \<Rightarrow> builder_op list \<Rightarrow> nat list" where
  "slots_used hdr b [] = []"
| "slots_used hdr b (c # cs) =
     slots_of_call hdr b c
       @ (case builder_step hdr b c of None \<Rightarrow> [] | Some b1 \<Rightarrow> slots_used hdr b1 cs)"

definition spec_largest_slot_used ::
    "(string \<Rightarrow> nat) \<Rightarrow> BifrostVMFunctionBuilder \<Rightarrow> builder_op list \<Rightarrow> nat" where
  "spec_largest_slot_used hdr b cs = fold max (slots_used hdr b cs) 0"

text \<open>A function object as \<open>bfObj_NewFunction\<close> leaves it, for the builder to fill.\<close>

definition new_function :: "64 word \<Rightarrow> BifrostObjFn" where
  "new_function m =
     \<lparr>fn_name = [], fn_arity = 0, fn_constants = [], fn_instructions = [],
      fn_needed_stack_space = 0, fn_module = m\<rparr>"

text \<open>
  A loop body of 131073 instruction words that starts with the word \<open>break\<close> emits,
  followed by \<open>RETURN 0\<close> words.
\<close>

definition long_loop_body :: "bfInstruction list" where
  "long_loop_body = BIFROST_INST_INVALID # replicate 131072 0x19"

text \<open>A loop of three instruction words whose second is the word \<open>break\<close> emits.\<close>

definition small_loop :: BifrostVMFunctionBuilder where
  "small_loop = bfFuncBuilder_ctor\<lparr>fb_instructions := [0x19, BIFROST_INST_INVALID, 0x19]\<rparr>"

text \<open>
  What the builder keeps true from \<open>bfFuncBuilder_begin\<close> on: \<open>local_vars\<close> never has
  more than \<open>max_local_idx + 1\<close> entries.
\<close>

definition builder_inv :: "BifrostVMFunctionBuilder \<Rightarrow> bool" where
  "builder_inv b = (length (fb_local_vars b) \<le> fb_max_local_idx b + 1)"

text \<open>
  For running concrete builds: a reading of the header in front of a name that lets
  no name pass the length test of \<open>bfVMString_ccmpn\<close> (only names of length 0 compare
  equal), and two short builds.
\<close>

definition no_header :: "string \<Rightarrow> nat" where
  "no_header name = 0"

definition one_temp_build :: "builder_op list" where
  "one_temp_build = [CallPushTemp 1]"

definition local_and_temps_build :: "builder_op list" where
  "local_and_temps_build = [CallDeclVariable ''x'', CallPushTemp 2, CallPopTemp 1]"


section \<open>The symbol table (bifrost\_vm\_api.c)\<close>

text \<open>
  Modelled from the spec: the body of \<open>bfVMArray_find\<close> (declared in
  bifrost\_vm\_obj.h) is not among the sources.  The specification says of the symbol
  table that "lookup is linear"; the function is taken to return the index of the
  first element on which the compare function answers non-zero, and
  \<open>BIFROST_ARRAY_INVALID_INDEX\<close> (here \<open>None\<close>) when there is none.
\<close>

fun bfVMArray_find_from :: "nat \<Rightarrow> ('a \<Rightarrow> bool) \<Rightarrow> 'a list \<Rightarrow> nat option" where
  "bfVMArray_find_from i cmp [] = None"
| "bfVMArray_find_from i cmp (x # xs) =
     (if cmp x then Some i else bfVMArray_find_from (Suc i) cmp xs)"

definition bfVMArray_find :: "'a list \<Rightarrow> 'k \<Rightarrow> ('k \<Rightarrow> 'a \<Rightarrow> bool) \<Rightarrow> nat option" where
  "bfVMArray_find self key compare = bfVMArray_find_from 0 (compare key) self"

definition bfVM_getSymbolHelper :: "string \<Rightarrow> string \<Rightarrow> bool" where
  "bfVM_getSymbolHelper name symb =
     (let lhs_len = length name;
          rhs_len = bfVMString_length symb
      in lhs_len = rhs_len \<and> bfVMString_ccmpn symb name lhs_len = 0)"

text \<open>
  \<open>bfVM_getSymbol\<close> returns the index as \<open>uint32_t\<close>.  A new symbol is a copy of the
  \<open>length\<close> bytes of the name.
\<close>

definition bfVM_getSymbol :: "BifrostVM \<Rightarrow> string \<Rightarrow> 32 word \<times> BifrostVM" where
  "bfVM_getSymbol self name =
     (case bfVMArray_find (vm_symbols self) name bfVM_getSymbolHelper of
        Some idx \<Rightarrow> (of_nat idx, self)
      | None \<Rightarrow> (of_nat (length (vm_symbols self)),
                 self\<lparr>vm_symbols := vm_symbols self @ [name]\<rparr>))"

text \<open>The index at which the table holds a name, as \<open>bfVM_getSymbol\<close> looks it up.\<close>

definition symbol_index :: "BifrostVM \<Rightarrow> string \<Rightarrow> nat option" where
  "symbol_index vm s = bfVMArray_find (vm_symbols vm) s bfVM_getSymbolHelper"

text \<open>
  Within the life of a VM the symbol table is written by \<open>bfVM_getSymbol\<close> only;
  \<open>bfVM_getSymbols\<close> is the machine after a sequence of such calls.
\<close>

fun bfVM_getSymbols :: "BifrostVM \<Rightarrow> string list \<Rightarrow> BifrostVM" where
  "bfVM_getSymbols self [] = self"
| "bfVM_getSymbols self (name # names) = bfVM_getSymbols (snd (bfVM_getSymbol self name)) names"


section \<open>The module registry (bifrost\_hash\_map.c, bifrost\_vm\_api.c, bifrost\_vm\_obj.c)\<close>

definition BIFROST_HASH_MAP_BUCKET_SIZE :: nat where
  "BIFROST_HASH_MAP_BUCKET_SIZE = 128"

definition ModuleMap_hash :: "BifrostObjStr \<Rightarrow> 32 word" where
  "ModuleMap_hash key = str_hash key"

definition ModuleMap_cmp :: "BifrostObjStr \<Rightarrow> BifrostObjStr \<Rightarrow> bool" where
  "ModuleMap_cmp str_lhs str_rhs =
     (str_hash str_lhs = str_hash str_rhs \<and> bfVMString_cmp (str_value str_lhs) (str_value str_rhs) = 0)"

text \<open>\<open>bfHashMap_set\<close> on one chain: the node whose key compares equal is overwritten.\<close>

fun chain_set ::
    "BifrostObjStr \<Rightarrow> 64 word \<Rightarrow> (BifrostObjStr \<times> 64 word) list \<Rightarrow> (BifrostObjStr \<times> 64 word) list option" where
  "chain_set key v [] = None"
| "chain_set key v (node # next) =
     (if ModuleMap_cmp key (fst node) then Some ((key, v) # next)
      else map_option (\<lambda>rest. node # rest) (chain_set key v next))"

definition bfHashMap_set ::
    "(BifrostObjStr \<times> 64 word) list list \<Rightarrow> BifrostObjStr \<Rightarrow> 64 word
       \<Rightarrow> (BifrostObjStr \<times> 64 word) list list" where
  "bfHashMap_set buckets key v =
     (let hash = unat (ModuleMap_hash key) mod BIFROST_HASH_MAP_BUCKET_SIZE
      in case chain_set key v (buckets ! hash) of
           Some chain \<Rightarrow> buckets[hash := chain]
         | None \<Rightarrow> buckets[hash := (key, v) # (buckets ! hash)])"

text \<open>
  \<open>bfVM_findModule\<close>: \<open>bfHashMapFor\<close> visits the buckets in order and each chain from
  its head; the first node whose key has the hash, the length and the bytes of the
  name gives the result, \<open>NULL\<close> when there is none.
\<close>

fun findModule_loop :: "32 word \<Rightarrow> string \<Rightarrow> (BifrostObjStr \<times> 64 word) list \<Rightarrow> 64 word" where
  "findModule_loop hash name [] = 0"
| "findModule_loop hash name (it # rest) =
     (let key = fst it;
          key_len = bfVMString_length (str_value key)
      in if str_hash key = hash \<and> key_len = length name
            \<and> bfVMString_ccmpn (str_value key) name (length name) = 0
         then snd it
         else findModule_loop hash name rest)"

definition bfVM_findModule :: "BifrostVM \<Rightarrow> string \<Rightarrow> 64 word" where
  "bfVM_findModule self name =
     (let hash = bfVMString_hashN name
      in findModule_loop hash name (concat (vm_modules self)))"

text \<open>
  \<open>EscapeConvert\<close> (its cases for the backslash, the quotes and the question mark
  return the character itself, as \<open>default\<close> does) and \<open>CString_unescape\<close>, which stops
  at the first NUL byte.
\<close>

definition EscapeConvert :: "char \<Rightarrow> char" where
  "EscapeConvert c =
     (if c = CHR ''a'' then CHR 0x07
      else if c = CHR ''b'' then CHR 0x08
      else if c = CHR ''f'' then CHR 0x0C
      else if c = CHR ''n'' then CHR 0x0A
      else if c = CHR ''r'' then CHR 0x0D
      else if c = CHR ''t'' then CHR 0x09
      else if c = CHR ''v'' then CHR 0x0B
      else c)"

fun CString_unescape :: "string \<Rightarrow> string" where
  "CString_unescape [] = []"
| "CString_unescape [c] =
     (if c = CHR 0x00 \<or> c = CHR 0x5C then [] else [c])"
| "CString_unescape (c # d # rest) =
     (if c = CHR 0x00 then []
      else if c = CHR 0x5C
      then (if d = CHR 0x00 then [] else EscapeConvert d # CString_unescape rest)
      else c # CString_unescape (d # rest))"

text \<open>
  What \<open>bfVM_importModule\<close> calls and is not modelled: the host's module callback
  (its answer is the \<open>BifrostVMModuleLookUp\<close> it fills), the address the allocator
  gives the next object, the compiler and the run of a module's top-level code.
\<close>

record BifrostVMModuleLookUp =
  lookup_source :: "string option"
  lookup_source_len :: nat

record import_env =
  host_module_fn :: "string \<Rightarrow> string \<Rightarrow> BifrostVMModuleLookUp"
  alloc_obj :: "BifrostVM \<Rightarrow> 64 word"
  compileIntoModule :: "BifrostVM \<Rightarrow> 64 word \<Rightarrow> string \<Rightarrow> nat \<Rightarrow> BifrostVMError \<times> BifrostVM"
  runModule :: "BifrostVM \<Rightarrow> 64 word \<Rightarrow> BifrostVMError \<times> BifrostVM"

definition bfObj_NewString :: "import_env \<Rightarrow> BifrostVM \<Rightarrow> string \<Rightarrow> (64 word \<times> BifrostObjStr) \<times> BifrostVM" where
  "bfObj_NewString env self v =
     (let obj = alloc_obj env self;
          s = CString_unescape v;
          str = \<lparr>str_value = s, str_hash = bfVMString_hashN s\<rparr>
      in ((obj, str), self\<lparr>vm_heap := (vm_heap self)(obj := Some (ObjStr str))\<rparr>))"

definition bfObj_NewModule :: "import_env \<Rightarrow> BifrostVM \<Rightarrow> string \<Rightarrow> 64 word \<times> BifrostVM" where
  "bfObj_NewModule env self name =
     (let module = alloc_obj env self
      in (module, self\<lparr>vm_heap := (vm_heap self)(module := Some (ObjModule name))\<rparr>))"

definition bfVM_importModule ::
    "import_env \<Rightarrow> BifrostVM \<Rightarrow> string \<Rightarrow> string \<Rightarrow> 64 word \<times> BifrostVM" where
  "bfVM_importModule env self from_name name =
     (let m = bfVM_findModule self name
      in if m \<noteq> 0 then (m, self)
         else if vm_module_fn self
         then (let ns = bfObj_NewString env self name;
                   module_name = snd (fst ns);
                   self1 = (snd ns)\<lparr>vm_events := vm_events (snd ns) @ [EvModuleFn from_name (str_value module_name)]\<rparr>;
                   look_up = host_module_fn env from_name (str_value module_name)
               in if lookup_source look_up \<noteq> None \<and> lookup_source_len look_up \<noteq> 0
                  then (let nm = bfObj_NewModule env self1 name;
                            m1 = fst nm;
                            self2 = (snd nm)\<lparr>vm_events := vm_events (snd nm) @ [EvCompile m1]\<rparr>;
                            c = compileIntoModule env self2 m1 (the (lookup_source look_up)) (lookup_source_len look_up);
                            r = (if fst c \<noteq> BIFROST_VM_ERROR_NONE then c
                                 else runModule env ((snd c)\<lparr>vm_events := vm_events (snd c) @ [EvRunModule m1]\<rparr>) m1);
                            has_error = (fst r \<noteq> BIFROST_VM_ERROR_NONE);
                            self3 = (if \<not> has_error
                                     then (snd r)\<lparr>vm_modules := bfHashMap_set (vm_modules (snd r)) module_name m1\<rparr>
                                     else snd r)
                        in (m1, self3))
                  else (0, self1\<lparr>vm_last_error := ErrTextModuleNotFound name\<rparr>))
         else (0, self\<lparr>vm_last_error := ErrTextNoModuleFn name\<rparr>))"

text \<open>
  An environment for running imports: a host that knows the one module \<open>main\<close>, an
  allocator that answers \<open>0x6000\<close> while nothing lives there and \<open>0x7000\<close> afterwards,
  a compiler and a runner that succeed and change nothing; a machine with a module
  callback and an empty registry of 128 chains; and that machine after it has
  imported \<open>main\<close>.
\<close>

definition example_import_env :: import_env where
  "example_import_env =
     \<lparr>host_module_fn = (\<lambda>f n. if n = ''main''
                                then \<lparr>lookup_source = Some ''var x = 1;'', lookup_source_len = 10\<rparr>
                                else \<lparr>lookup_source = None, lookup_source_len = 0\<rparr>),
      alloc_obj = (\<lambda>vm. if vm_heap vm 0x6000 = None then 0x6000 else 0x7000),
      compileIntoModule = (\<lambda>vm m src len. (BIFROST_VM_ERROR_NONE, vm)),
      runModule = (\<lambda>vm m. (BIFROST_VM_ERROR_NONE, vm))\<rparr>"

definition example_import_vm :: BifrostVM where
  "example_import_vm = (example_vm [] (\<lambda>i. 0))\<lparr>vm_module_fn := True\<rparr>"

definition example_imported_vm :: BifrostVM where
  "example_imported_vm =
     snd (bfVM_importModule example_import_env example_import_vm ''boot'' ''main'')"


section \<open>The heap threshold of the garbage collector (bifrost\_vm\_gc.c)\<close>









section \<open>Facts about the value encoding\<close>

lemma pointer_mask_value: "k_VMValuePointerMask = 0xFFFC000000000000"
  by (simp add: k_VMValuePointerMask_def k_doubleSignBit_def k_QuietNan_def)

lemma null_value: "k_VMValueNull = 0x7FFC000000000001"
  by (simp add: k_VMValueNull_def k_QuietNan_def k_VMValueTagNull_def)

lemma true_value: "k_VMValueTrue = 0x7FFC000000000002"
  by (simp add: k_VMValueTrue_def k_QuietNan_def k_VMValueTagTrue_def)

lemma false_value: "k_VMValueFalse = 0x7FFC000000000001"
  by (simp add: k_VMValueFalse_def k_QuietNan_def k_VMValueTagNull_def)


lemma bit63_mask: "bit k_VMValuePointerMask 63"
  by (simp add: k_VMValuePointerMask_def k_doubleSignBit_def bit_simps)

lemma bit63_null: "\<not> bit k_VMValueNull 63"
  by (simp add: null_value)

lemma and_not_of_disjoint:
  fixes p m :: "64 word"
  assumes "p AND m = 0"
  shows "(m OR p) AND NOT m = p"
proof (rule bit_word_eqI)
  fix n assume len: "n < LENGTH(64)"
  have "\<not> bit (p AND m) n" using assms by simp
  then have "\<not> (bit p n \<and> bit m n)" by (simp add: bit_and_iff)
  then show "bit ((m OR p) AND NOT m) n = bit p n"
    using len by (auto simp add: bit_and_iff bit_or_iff bit_not_iff)
qed

lemma ptr_truthy: 
  assumes "p \<noteq> 0" "p AND k_VMValuePointerMask = 0"
  shows "bfVMValue_isThuthy (bfVMValue_fromPointer p)"
proof -
  let ?v = "k_VMValuePointerMask OR p"
  have b: "bit ?v 63" using bit63_mask by (simp add: bit_or_iff)
  have n: "?v \<noteq> k_VMValueNull" using b bit63_null by auto
  have f: "?v \<noteq> k_VMValueFalse" using n by (simp add: null_value false_value)
  have a: "bfVMValue_asPointer ?v \<noteq> 0" 
    using assms and_not_of_disjoint [OF assms(2)] by (simp add: bfVMValue_asPointer_def)
  show ?thesis using n f a assms(1)
    by (simp add: bfVMValue_isThuthy_def bfVMValue_fromPointer_def bfVMValue_isNull_def bfVMValue_isFalse_def)
qed

lemma truthy_iff: "bfVMValue_isThuthy v = (\<not> (bfVMValue_isNull v \<or> bfVMValue_isFalse v \<or> (bfVMValue_isPointer v \<and> bfVMValue_asPointer v = 0)))"
  by (simp add: bfVMValue_isThuthy_def)

lemma zero_truthy: "bfVMValue_isThuthy (bfVMValue_fromNumber 0)"
  by (simp add: bfVMValue_isThuthy_def bfVMValue_fromNumber_def bfVMValue_isNull_def bfVMValue_isFalse_def bfVMValue_isPointer_def
     null_value false_value pointer_mask_value)

lemma quiet_in_mask: "k_VMValuePointerMask AND k_QuietNan = k_QuietNan"
  by (simp add: pointer_mask_value k_QuietNan_def)

lemma pointer_not_number: "bfVMValue_isPointer v \<Longrightarrow> \<not> bfVMValue_isNumber v"
proof -
  assume "bfVMValue_isPointer v"
  then have "v AND k_VMValuePointerMask = k_VMValuePointerMask" by (simp add: bfVMValue_isPointer_def)
  then have "(v AND k_VMValuePointerMask) AND k_QuietNan = k_QuietNan" by (simp add: quiet_in_mask)
  then have "v AND k_QuietNan = k_QuietNan" by (simp add: and.assoc quiet_in_mask)
  then show ?thesis by (simp add: bfVMValue_isNumber_def)
qed

lemma and_exp_cases:
  fixes v :: "64 word"
  shows "v AND 2 ^ n = 0 \<or> v AND 2 ^ n = 2 ^ n"
proof (cases "bit v n")
  case True
  have "v AND 2 ^ n = 2 ^ n"
    by (rule bit_word_eqI) (use True in \<open>auto simp add: bit_simps\<close>)
  then show ?thesis by simp
next
  case False
  have "v AND 2 ^ n = 0"
    by (rule bit_word_eqI) (use False in \<open>auto simp add: bit_simps\<close>)
  then show ?thesis by simp
qed

lemma sign_bit_exp: "k_doubleSignBit = 2 ^ 63"
  by (simp add: k_doubleSignBit_def)

lemma sign_bit_cases: "(v :: 64 word) AND k_doubleSignBit = 0 \<or> v AND k_doubleSignBit = k_doubleSignBit"
  unfolding sign_bit_exp by (rule and_exp_cases)

lemma not_number_cases:
  assumes "\<not> bfVMValue_isNumber v"
  shows "bfVMValue_isPointer v \<or> v AND k_VMValuePointerMask = k_QuietNan"
proof -
  have q: "v AND k_QuietNan = k_QuietNan" using assms by (simp add: bfVMValue_isNumber_def)
  have split: "v AND k_VMValuePointerMask = (v AND k_doubleSignBit) OR (v AND k_QuietNan)"
    by (simp add: k_VMValuePointerMask_def bit.conj_disj_distrib)
  from sign_bit_cases [of v] show ?thesis
  proof
    assume "v AND k_doubleSignBit = 0"
    then show ?thesis using split q by simp
  next
    assume "v AND k_doubleSignBit = k_doubleSignBit"
    then show ?thesis using split q by (simp add: bfVMValue_isPointer_def k_VMValuePointerMask_def)
  qed
qed

lemma null_class: "k_VMValueNull AND k_VMValuePointerMask = k_QuietNan"
  by (simp add: null_value pointer_mask_value k_QuietNan_def)

lemma true_class: "k_VMValueTrue AND k_VMValuePointerMask = k_QuietNan"
  by (simp add: true_value pointer_mask_value k_QuietNan_def)

lemma quiet_ne_mask: "k_QuietNan \<noteq> k_VMValuePointerMask"
  by (simp add: pointer_mask_value k_QuietNan_def)

lemma quiet_class_not_number: "v AND k_VMValuePointerMask = k_QuietNan \<Longrightarrow> \<not> bfVMValue_isNumber v"
proof -
  assume a: "v AND k_VMValuePointerMask = k_QuietNan"
  have "v AND k_QuietNan = v AND (k_VMValuePointerMask AND k_QuietNan)" by (simp add: quiet_in_mask)
  also have "\<dots> = (v AND k_VMValuePointerMask) AND k_QuietNan" by (simp add: and.assoc)
  also have "\<dots> = k_QuietNan" using a by simp
  finally show ?thesis by (simp add: bfVMValue_isNumber_def)
qed

lemma null_truthy_class: "\<not> bfVMValue_isNumber k_VMValueNull"
  by (rule quiet_class_not_number [OF null_class])

lemma number_truthy: "bfVMValue_isNumber v \<Longrightarrow> bfVMValue_isThuthy v"
  using null_truthy_class pointer_not_number [of v]
  by (auto simp add: bfVMValue_isThuthy_def bfVMValue_isNull_def bfVMValue_isFalse_def false_value null_value)

lemma true_truthy: "bfVMValue_isTrue v \<Longrightarrow> bfVMValue_isThuthy v"
  using true_class quiet_ne_mask
  by (auto simp add: bfVMValue_isThuthy_def bfVMValue_isTrue_def bfVMValue_isNull_def
        bfVMValue_isFalse_def bfVMValue_isPointer_def false_value null_value true_value)

lemma and_split:
  fixes v m :: "64 word"
  shows "(v AND m) OR (v AND NOT m) = v"
  by (rule bit_word_eqI) (auto simp add: bit_simps)

lemma null_pointer_pattern:
  "(bfVMValue_isPointer v \<and> bfVMValue_asPointer v = 0) = (v = k_VMValuePointerMask)"
proof
  assume a: "bfVMValue_isPointer v \<and> bfVMValue_asPointer v = 0"
  then have "v AND k_VMValuePointerMask = k_VMValuePointerMask" "v AND NOT k_VMValuePointerMask = 0"
    by (simp_all add: bfVMValue_isPointer_def bfVMValue_asPointer_def)
  then show "v = k_VMValuePointerMask" using and_split [of v k_VMValuePointerMask] by simp
next
  assume "v = k_VMValuePointerMask"
  then show "bfVMValue_isPointer v \<and> bfVMValue_asPointer v = 0"
    by (simp add: bfVMValue_isPointer_def bfVMValue_asPointer_def)
qed

lemma falsy_patterns:
  "(\<not> bfVMValue_isThuthy v) = (v = k_VMValueNull \<or> v = k_VMValueFalse \<or> v = k_VMValuePointerMask)"
  using null_pointer_pattern [of v]
  by (auto simp add: bfVMValue_isThuthy_def bfVMValue_isNull_def bfVMValue_isFalse_def)


section \<open>Facts about the instruction encoding\<close>

lemma op_mask_eq: "BIFROST_INST_OP_MASK = mask 5"
  by (simp add: BIFROST_INST_OP_MASK_def mask_eq_exp_minus_1)

lemma ra_mask_eq: "BIFROST_INST_RA_MASK = mask 9"
  by (simp add: BIFROST_INST_RA_MASK_def mask_eq_exp_minus_1)

lemma rb_mask_eq: "BIFROST_INST_RB_MASK = mask 9"
  by (simp add: BIFROST_INST_RB_MASK_def mask_eq_exp_minus_1)

lemma rc_mask_eq: "BIFROST_INST_RC_MASK = mask 9"
  by (simp add: BIFROST_INST_RC_MASK_def mask_eq_exp_minus_1)

lemma rbx_mask_eq: "BIFROST_INST_RBx_MASK = mask 18"
  by (simp add: BIFROST_INST_RBx_MASK_def mask_eq_exp_minus_1)

lemma rsbx_mask_eq: "BIFROST_INST_RsBx_MASK = mask 18"
  by (simp add: BIFROST_INST_RsBx_MASK_def mask_eq_exp_minus_1)

lemmas inst_masks = op_mask_eq ra_mask_eq rb_mask_eq rc_mask_eq rbx_mask_eq rsbx_mask_eq
  BIFROST_INST_RA_OFFSET_def BIFROST_INST_RB_OFFSET_def BIFROST_INST_RC_OFFSET_def
  BIFROST_INST_RBx_OFFSET_def BIFROST_INST_RsBx_OFFSET_def

lemma decodeOp_ABC: "bfInst_decodeOp (BIFROST_MAKE_INST_OP_ABC opc a b c) = opc AND BIFROST_INST_OP_MASK"
  unfolding bfInst_decodeOp_def BIFROST_MAKE_INST_OP_ABC_def BIFROST_MAKE_INST_OP_def BIFROST_MAKE_INST_RC_def inst_masks
  by (rule bit_word_eqI) (auto simp add: bit_simps)

lemma decodeOp_AsBx: "bfInst_decodeOp (BIFROST_MAKE_INST_OP_AsBx opc a bx) = opc AND BIFROST_INST_OP_MASK"
  unfolding bfInst_decodeOp_def BIFROST_MAKE_INST_OP_AsBx_def BIFROST_MAKE_INST_OP_def inst_masks
  by (rule bit_word_eqI) (auto simp add: bit_simps)

lemma decodeOp_ABx: "bfInst_decodeOp (BIFROST_MAKE_INST_OP_ABx opc a bx) = opc AND BIFROST_INST_OP_MASK"
  unfolding bfInst_decodeOp_def BIFROST_MAKE_INST_OP_ABx_def BIFROST_MAKE_INST_OP_def inst_masks
  by (rule bit_word_eqI) (auto simp add: bit_simps)

lemma decodeRBx_AsBx:
  "bfInst_decodeRBx (BIFROST_MAKE_INST_OP_AsBx opc a bx) = (bx + BIFROST_INST_RsBx_MAX) AND BIFROST_INST_RsBx_MASK"
  unfolding bfInst_decodeRBx_def BIFROST_MAKE_INST_OP_AsBx_def BIFROST_MAKE_INST_OP_def inst_masks
  by (rule bit_word_eqI) (auto simp add: bit_simps)

lemma decodeRBx_ABx:
  "bfInst_decodeRBx (BIFROST_MAKE_INST_OP_ABx opc a bx) = bx AND BIFROST_INST_RBx_MASK"
  unfolding bfInst_decodeRBx_def BIFROST_MAKE_INST_OP_ABx_def BIFROST_MAKE_INST_OP_def inst_masks
  by (rule bit_word_eqI) (auto simp add: bit_simps)

lemma decodeRa_ABC: "bfInst_decodeRa (BIFROST_MAKE_INST_OP_ABC opc a b c) = a AND BIFROST_INST_RA_MASK"
  unfolding bfInst_decodeRa_def BIFROST_MAKE_INST_OP_ABC_def BIFROST_MAKE_INST_OP_def BIFROST_MAKE_INST_RC_def inst_masks
  by (rule bit_word_eqI) (auto simp add: bit_simps)

lemma decodeRb_ABC: "bfInst_decodeRb (BIFROST_MAKE_INST_OP_ABC opc a b c) = b AND BIFROST_INST_RB_MASK"
  unfolding bfInst_decodeRb_def BIFROST_MAKE_INST_OP_ABC_def BIFROST_MAKE_INST_OP_def BIFROST_MAKE_INST_RC_def inst_masks
  by (rule bit_word_eqI) (auto simp add: bit_simps)

lemma decodeRc_ABC: "bfInst_decodeRc (BIFROST_MAKE_INST_OP_ABC opc a b c) = c AND BIFROST_INST_RC_MASK"
  unfolding bfInst_decodeRc_def BIFROST_MAKE_INST_OP_ABC_def BIFROST_MAKE_INST_OP_def BIFROST_MAKE_INST_RC_def inst_masks
  by (rule bit_word_eqI) (auto simp add: bit_simps)

lemma decodeRa_AsBx: "bfInst_decodeRa (BIFROST_MAKE_INST_OP_AsBx opc a bx) = a AND BIFROST_INST_RA_MASK"
  unfolding bfInst_decodeRa_def BIFROST_MAKE_INST_OP_AsBx_def BIFROST_MAKE_INST_OP_def inst_masks
  by (rule bit_word_eqI) (auto simp add: bit_simps)

lemma decodeOp_masked: "bfInst_decodeOp inst AND BIFROST_INST_OP_MASK = bfInst_decodeOp inst"
  by (simp add: bfInst_decodeOp_def and.assoc)


section \<open>Single instructions\<close>

lemma exec_inst_CMP_LE:
  assumes "at_inst vm fn inst" and "bfInst_decodeOp inst = op_code BIFROST_VM_OP_CMP_LE"
  shows "exec_inst p vm = OpRuntimeError (ErrInvalidOp 15) vm"
  using assms by (simp add: at_inst_def exec_inst_def Let_def BIFROST_INST_OP_MASK_def)

lemma exec_inst_MATH_MUL:
  assumes "at_inst vm fn inst" and "bfInst_decodeOp inst = op_code BIFROST_VM_OP_MATH_MUL"
  shows "exec_inst p vm = OpBreak (locals_set vm (last (vm_frames vm)) (unat (bfInst_decodeRa inst))
           (bfVMValue_mul p (locals_get vm (last (vm_frames vm)) (unat (bfInst_decodeRb inst)))
                            (locals_get vm (last (vm_frames vm)) (unat (bfInst_decodeRc inst)))))"
  using assms by (simp add: at_inst_def exec_inst_def Let_def BIFROST_INST_OP_MASK_def)

lemma exec_inst_MATH_DIV:
  assumes "at_inst vm fn inst" and "bfInst_decodeOp inst = op_code BIFROST_VM_OP_MATH_DIV"
  shows "exec_inst p vm = OpBreak (locals_set vm (last (vm_frames vm)) (unat (bfInst_decodeRa inst))
           (bfVMValue_div p (locals_get vm (last (vm_frames vm)) (unat (bfInst_decodeRb inst)))
                            (locals_get vm (last (vm_frames vm)) (unat (bfInst_decodeRc inst)))))"
  using assms by (simp add: at_inst_def exec_inst_def Let_def BIFROST_INST_OP_MASK_def)

lemma exec_inst_MATH_SUB:
  assumes "at_inst vm fn inst" and "bfInst_decodeOp inst = op_code BIFROST_VM_OP_MATH_SUB"
  shows "exec_inst p vm = exec_MATH_SUB p vm (last (vm_frames vm)) (unat (bfInst_decodeRa inst))
            (unat (bfInst_decodeRb inst)) (unat (bfInst_decodeRc inst))"
  using assms by (simp add: at_inst_def exec_inst_def Let_def BIFROST_INST_OP_MASK_def)

lemma exec_inst_JUMP_IF:
  assumes "at_inst vm fn inst" and "bfInst_decodeOp inst = op_code BIFROST_VM_OP_JUMP_IF"
  shows "exec_inst p vm =
           (if bfVMValue_isThuthy (locals_get vm (last (vm_frames vm)) (unat (bfInst_decodeRa inst)))
            then OpContinue (frame_set_ip vm (fr_ip (last (vm_frames vm)) + bfInst_decodeRsBx inst))
            else OpBreak vm)"
  using assms by (simp add: at_inst_def exec_inst_def Let_def BIFROST_INST_OP_MASK_def)

lemma exec_inst_JUMP_IF_NOT:
  assumes "at_inst vm fn inst" and "bfInst_decodeOp inst = op_code BIFROST_VM_OP_JUMP_IF_NOT"
  shows "exec_inst p vm =
           (if \<not> bfVMValue_isThuthy (locals_get vm (last (vm_frames vm)) (unat (bfInst_decodeRa inst)))
            then OpContinue (frame_set_ip vm (fr_ip (last (vm_frames vm)) + bfInst_decodeRsBx inst))
            else OpBreak vm)"
  using assms by (simp add: at_inst_def exec_inst_def Let_def BIFROST_INST_OP_MASK_def)


lemma at_inst_example:
  "at_inst (example_vm (i # code) locals) (example_fn (i # code) 0) i"
  by (simp add: at_inst_def example_vm_def heap_fn_def example_heap_def example_fn_def)

lemma mul_non_number:
  "\<not> bfVMValue_isNumber lhs \<or> \<not> bfVMValue_isNumber rhs \<Longrightarrow> bfVMValue_mul p lhs rhs = k_VMValueNull"
  by (auto simp add: bfVMValue_mul_def bfVMValue_fromNull_def)

lemma div_non_number:
  "\<not> bfVMValue_isNumber lhs \<or> \<not> bfVMValue_isNumber rhs \<Longrightarrow> bfVMValue_div p lhs rhs = k_VMValueNull"
  by (auto simp add: bfVMValue_div_def bfVMValue_fromNull_def)

lemma null_not_number: "\<not> bfVMValue_isNumber k_VMValueNull"
  by (simp add: bfVMValue_isNumber_def null_value k_QuietNan_def)

lemma exec_loop_JUMP_IF:
  assumes "at_inst vm fn inst" and "bfInst_decodeOp inst = op_code BIFROST_VM_OP_JUMP_IF"
  shows "exec_loop p (Suc fuel) r vm =
           exec_loop p fuel r
             (vm\<lparr>vm_frames := butlast (vm_frames vm)
                    @ [(last (vm_frames vm))
                         \<lparr>fr_ip := fr_ip (last (vm_frames vm))
                            + (if bfVMValue_isThuthy (locals_get vm (last (vm_frames vm)) (unat (bfInst_decodeRa inst)))
                               then bfInst_decodeRsBx inst else 1)\<rparr>]\<rparr>)"
  using exec_inst_JUMP_IF [OF assms, of p] by (simp add: frame_set_ip_def)

lemma exec_loop_JUMP_IF_NOT:
  assumes "at_inst vm fn inst" and "bfInst_decodeOp inst = op_code BIFROST_VM_OP_JUMP_IF_NOT"
  shows "exec_loop p (Suc fuel) r vm =
           exec_loop p fuel r
             (vm\<lparr>vm_frames := butlast (vm_frames vm)
                    @ [(last (vm_frames vm))
                         \<lparr>fr_ip := fr_ip (last (vm_frames vm))
                            + (if bfVMValue_isThuthy (locals_get vm (last (vm_frames vm)) (unat (bfInst_decodeRa inst)))
                               then 1 else bfInst_decodeRsBx inst)\<rparr>]\<rparr>)"
  using exec_inst_JUMP_IF_NOT [OF assms, of p] by (simp add: frame_set_ip_def)

lemma exec_inst_JUMP_IF_state:
  assumes "at_inst vm fn inst" and "bfInst_decodeOp inst = op_code BIFROST_VM_OP_JUMP_IF"
  shows "exec_inst p vm =
           (if bfVMValue_isThuthy (locals_get vm (last (vm_frames vm)) (unat (bfInst_decodeRa inst)))
            then OpContinue
                   (vm\<lparr>vm_frames := butlast (vm_frames vm)
                          @ [(last (vm_frames vm))
                               \<lparr>fr_ip := fr_ip (last (vm_frames vm)) + bfInst_decodeRsBx inst\<rparr>]\<rparr>)
            else OpBreak vm)"
  using exec_inst_JUMP_IF [OF assms, of p] by (simp add: frame_set_ip_def)

lemma exec_inst_JUMP_IF_NOT_state:
  assumes "at_inst vm fn inst" and "bfInst_decodeOp inst = op_code BIFROST_VM_OP_JUMP_IF_NOT"
  shows "exec_inst p vm =
           (if bfVMValue_isThuthy (locals_get vm (last (vm_frames vm)) (unat (bfInst_decodeRa inst)))
            then OpBreak vm
            else OpContinue
                   (vm\<lparr>vm_frames := butlast (vm_frames vm)
                          @ [(last (vm_frames vm))
                               \<lparr>fr_ip := fr_ip (last (vm_frames vm)) + bfInst_decodeRsBx inst\<rparr>]\<rparr>))"
  using exec_inst_JUMP_IF_NOT [OF assms, of p] by (simp add: frame_set_ip_def)

lemma decodeRsBx_example: "bfInst_decodeRsBx (BIFROST_MAKE_INST_OP_AsBx opc a 5) = 5"
  by (simp add: bfInst_decodeRsBx_def decodeRBx_AsBx BIFROST_INST_RsBx_MAX_def BIFROST_INST_RsBx_MASK_def)

lemma decodeRa_example: "unat (bfInst_decodeRa (BIFROST_MAKE_INST_OP_AsBx opc 3 bx)) = 3"
  by (simp add: decodeRa_AsBx BIFROST_INST_RA_MASK_def)

lemma example_frames:
  "vm_frames (example_vm code locals) = [\<lparr>fr_fn = 0x1000, fr_ip = 0, fr_old_stack = 0, fr_stack = 0\<rparr>]"
  by (simp add: example_vm_def)

lemma example_zero_locals: "locals_get (example_vm code (\<lambda>i. 0)) fr i = 0"
  by (simp add: locals_get_def example_vm_def)

lemma decodeRa_example1: "unat (bfInst_decodeRa (BIFROST_MAKE_INST_OP_AsBx opc 1 bx)) = 1"
  by (simp add: decodeRa_AsBx BIFROST_INST_RA_MASK_def)

lemma example_nil_local:
  "locals_get (example_vm code nil_locals) \<lparr>fr_fn = f, fr_ip = ip, fr_old_stack = os, fr_stack = 0\<rparr> (Suc 0)
   = k_VMValueNull"
  by (simp add: locals_get_def example_vm_def nil_locals_def)



section \<open>Calls\<close>










lemma host_not_at_inst: "\<not> at_inst (example_host_vm locals) fn inst"
  by (simp add: at_inst_def example_host_vm_def)


section \<open>Patching the \<open>break\<close> words\<close>

declare loopPop_patch.simps [simp del]

lemma loopPop_patch_length: "length (loopPop_patch i e insts) = length insts"
proof (induction i e insts rule: loopPop_patch.induct)
  case (1 i body_end insts)
  show ?case
  proof (cases "i < body_end")
    case True
    then show ?thesis using 1 [OF True] by (subst loopPop_patch.simps) simp
  next
    case False
    then show ?thesis by (subst loopPop_patch.simps) simp
  qed
qed

lemma loopPop_patch_nth:
  "k < length insts \<Longrightarrow>
   loopPop_patch i e insts ! k =
     (if i \<le> k \<and> k < e \<and> insts ! k = BIFROST_INST_INVALID
      then BIFROST_MAKE_INST_OP_AsBx (op_code BIFROST_VM_OP_JUMP) 0 (of_nat (e - k))
      else insts ! k)"
proof (induction i e insts rule: loopPop_patch.induct)
  case (1 i body_end insts)
  show ?case
  proof (cases "i < body_end")
    case True
    let ?insts' = "(if insts ! i = BIFROST_INST_INVALID
              then insts[i := BIFROST_MAKE_INST_OP_AsBx (op_code BIFROST_VM_OP_JUMP) 0 (of_nat (body_end - i))]
              else insts)"
    have len: "k < length ?insts'" using "1.prems" by simp
    have step: "loopPop_patch i body_end insts = loopPop_patch (Suc i) body_end ?insts'"
      using True by (subst loopPop_patch.simps) simp
    have ih: "loopPop_patch (Suc i) body_end ?insts' ! k =
          (if Suc i \<le> k \<and> k < body_end \<and> ?insts' ! k = BIFROST_INST_INVALID
           then BIFROST_MAKE_INST_OP_AsBx (op_code BIFROST_VM_OP_JUMP) 0 (of_nat (body_end - k))
           else ?insts' ! k)"
      using "1.IH" [OF True len] .
    show ?thesis
    proof (cases "k = i")
      case True
      then show ?thesis using step ih "1.prems" \<open>i < body_end\<close> by auto
    next
      case False
      then show ?thesis using step ih "1.prems" by auto
    qed
  next
    case False
    then show ?thesis by (subst loopPop_patch.simps) auto
  qed
qed

lemma jump_word_not_invalid:
  "BIFROST_MAKE_INST_OP_AsBx (op_code BIFROST_VM_OP_JUMP) a bx \<noteq> BIFROST_INST_INVALID"
proof
  assume "BIFROST_MAKE_INST_OP_AsBx (op_code BIFROST_VM_OP_JUMP) a bx = BIFROST_INST_INVALID"
  then have e: "bfInst_decodeOp (BIFROST_MAKE_INST_OP_AsBx (op_code BIFROST_VM_OP_JUMP) a bx)
              = bfInst_decodeOp BIFROST_INST_INVALID" by (rule arg_cong)
  have d1: "bfInst_decodeOp (BIFROST_MAKE_INST_OP_AsBx (op_code BIFROST_VM_OP_JUMP) a bx) = 22"
    by (simp add: decodeOp_AsBx BIFROST_INST_OP_MASK_def)
  have d2: "bfInst_decodeOp BIFROST_INST_INVALID = 31"
    by (simp add: bfInst_decodeOp_def BIFROST_INST_INVALID_def BIFROST_INST_OP_MASK_def)
  from e have "(22 :: 32 word) = 31" unfolding d1 d2 .
  then show False by simp
qed

lemma decodeRsBx_of_nat:
  assumes "n \<le> 131072"
  shows "bfInst_decodeRsBx (BIFROST_MAKE_INST_OP_AsBx opc a (of_nat n)) = int n"
proof -
  have lt: "n + 131071 < 2 ^ 18" using assms by simp
  have a: "(of_nat n + BIFROST_INST_RsBx_MAX :: 32 word) = of_nat (n + 131071)"
    by (simp add: BIFROST_INST_RsBx_MAX_def BIFROST_INST_RsBx_MASK_def)
  have "(of_nat (n + 131071) :: 32 word) AND mask 18 = take_bit 18 (of_nat (n + 131071))"
    by (simp only: take_bit_eq_mask)
  also have "\<dots> = of_nat (take_bit 18 (n + 131071))"
    by (simp only: take_bit_of_nat)
  also have "\<dots> = of_nat (n + 131071)"
    using lt by (simp only: take_bit_nat_eq_self)
  finally have b: "(of_nat (n + 131071) :: 32 word) AND mask 18 = of_nat (n + 131071)" .
  have c: "(of_nat (n + 131071) :: 32 word) - BIFROST_INST_RsBx_MAX = of_nat n"
    by (simp add: BIFROST_INST_RsBx_MAX_def BIFROST_INST_RsBx_MASK_def)
  have d: "sint (of_nat n :: 32 word) = int n"
    using assms by (simp add: signed_of_nat signed_take_bit_int_eq_self)
  show ?thesis
    unfolding bfInst_decodeRsBx_def decodeRBx_AsBx a rsbx_mask_eq b c d ..
qed

lemma long_loop_body_length: "length long_loop_body = 131073"
  by (simp only: long_loop_body_def length_Cons length_replicate)

lemma long_loop_body_hd: "long_loop_body ! 0 = BIFROST_INST_INVALID"
  by (simp only: long_loop_body_def nth_Cons_0)

lemma decodeRsBx_overflow:
  "bfInst_decodeRsBx (BIFROST_MAKE_INST_OP_AsBx opc a 131073) = - 131071"
  by (simp add: bfInst_decodeRsBx_def decodeRBx_AsBx BIFROST_INST_RsBx_MAX_def BIFROST_INST_RsBx_MASK_def)


section \<open>Interning symbols\<close>

lemma strncmp_refl: "LibC_strncmp s s n = 0"
  by (induction n arbitrary: s) (auto simp add: Let_def)

lemma getSymbolHelper_refl: "bfVM_getSymbolHelper s s"
  by (simp add: bfVM_getSymbolHelper_def bfVMString_length_def bfVMString_ccmpn_def strncmp_refl)

lemma find_from_append_Some:
  "bfVMArray_find_from i c xs = Some k \<Longrightarrow> bfVMArray_find_from i c (xs @ ys) = Some k"
  by (induction xs arbitrary: i) (auto split: if_splits)

lemma find_from_append_None:
  "bfVMArray_find_from i c xs = None \<Longrightarrow>
     bfVMArray_find_from i c (xs @ ys) = bfVMArray_find_from (i + length xs) c ys"
  by (induction xs arbitrary: i) (auto split: if_splits)

lemma find_from_bound:
  "bfVMArray_find_from i c xs = Some k \<Longrightarrow> i \<le> k \<and> k < i + length xs"
  by (induction xs arbitrary: i) (fastforce split: if_splits)+

lemma getSymbol_index_after:
  assumes "bfVM_getSymbol vm s = (i, vm1)"
  shows "\<exists>k. symbol_index vm1 s = Some k \<and> i = of_nat k
             \<and> (symbol_index vm s = None \<longrightarrow> k = length (vm_symbols vm))"
proof (cases "symbol_index vm s")
  case None
  then have f: "bfVMArray_find_from 0 (bfVM_getSymbolHelper s) (vm_symbols vm) = None"
    by (simp add: symbol_index_def bfVMArray_find_def)
  have v: "vm1 = vm\<lparr>vm_symbols := vm_symbols vm @ [s]\<rparr>" "i = of_nat (length (vm_symbols vm))"
    using assms None by (simp_all add: bfVM_getSymbol_def symbol_index_def)
  have "symbol_index vm1 s = Some (length (vm_symbols vm))"
    unfolding v symbol_index_def bfVMArray_find_def
    using find_from_append_None [OF f, of "[s]"] getSymbolHelper_refl by simp
  then show ?thesis using v None by simp
next
  case (Some k)
  then have "vm1 = vm" "i = of_nat k"
    using assms by (simp_all add: bfVM_getSymbol_def symbol_index_def)
  then show ?thesis using Some by simp
qed

lemma getSymbol_keeps_index:
  assumes "symbol_index vm s = Some k"
  shows "symbol_index (snd (bfVM_getSymbol vm t)) s = Some k"
proof (cases "symbol_index vm t")
  case None
  have f: "bfVMArray_find_from 0 (bfVM_getSymbolHelper s) (vm_symbols vm) = Some k"
    using assms by (simp add: symbol_index_def bfVMArray_find_def)
  show ?thesis
    using None find_from_append_Some [OF f, of "[t]"]
    by (simp add: bfVM_getSymbol_def symbol_index_def bfVMArray_find_def)
next
  case (Some j)
  then show ?thesis using assms by (simp add: bfVM_getSymbol_def symbol_index_def)
qed

lemma getSymbols_keeps_index:
  "symbol_index vm s = Some k \<Longrightarrow> symbol_index (bfVM_getSymbols vm names) s = Some k"
  by (induction names arbitrary: vm) (auto dest: getSymbol_keeps_index)

lemma getSymbol_of_index:
  "symbol_index vm s = Some k \<Longrightarrow> bfVM_getSymbol vm s = (of_nat k, vm)"
  by (simp add: bfVM_getSymbol_def symbol_index_def)

lemma getSymbol_prefix:
  "take (length (vm_symbols vm)) (vm_symbols (snd (bfVM_getSymbol vm t))) = vm_symbols vm"
  by (simp add: bfVM_getSymbol_def split: option.splits)

lemma getSymbol_length:
  "length (vm_symbols vm) \<le> length (vm_symbols (snd (bfVM_getSymbol vm t)))"
  by (simp add: bfVM_getSymbol_def split: option.splits)

lemma getSymbols_prefix:
  "length (vm_symbols vm) \<le> length (vm_symbols (bfVM_getSymbols vm names))
   \<and> take (length (vm_symbols vm)) (vm_symbols (bfVM_getSymbols vm names)) = vm_symbols vm"
proof (induction names arbitrary: vm)
  case Nil
  then show ?case by simp
next
  case (Cons t names)
  let ?v = "snd (bfVM_getSymbol vm t)"
  have a: "length (vm_symbols vm) \<le> length (vm_symbols ?v)" by (rule getSymbol_length)
  have b: "take (length (vm_symbols vm)) (vm_symbols ?v) = vm_symbols vm" by (rule getSymbol_prefix)
  note ih = Cons.IH [of ?v]
  have "take (length (vm_symbols vm)) (vm_symbols (bfVM_getSymbols ?v names))
        = take (length (vm_symbols vm)) (take (length (vm_symbols ?v)) (vm_symbols (bfVM_getSymbols ?v names)))"
    using a by (simp add: min_def)
  also have "\<dots> = vm_symbols vm" using ih b by simp
  finally show ?case using a ih by simp
qed

lemma x_fresh: "bfVM_getSymbol (example_vm [] (\<lambda>i. 0)) ''x''
     = (3, (example_vm [] (\<lambda>i. 0))\<lparr>vm_symbols := [''ctor'', ''dtor'', ''call'', ''x'']\<rparr>)"
  by (simp add: bfVM_getSymbol_def bfVMArray_find_def bfVM_getSymbolHelper_def bfVMString_length_def
        bfVMString_ccmpn_def example_vm_def Let_def)

lemma strncmp_eq:
  "length a = n \<Longrightarrow> length b = n \<Longrightarrow> CHR 0x00 \<notin> set b \<Longrightarrow> LibC_strncmp a b n = 0 \<Longrightarrow> a = b"
proof (induction n arbitrary: a b)
  case 0
  then show ?case by simp
next
  case (Suc n)
  obtain x a' where a: "a = x # a'" using Suc.prems(1) by (cases a) auto
  obtain y b' where b: "b = y # b'" using Suc.prems(2) by (cases b) auto
  have xy: "x = y" using Suc.prems(4) unfolding a b
    by (auto simp add: Let_def split: if_splits)
  have y0: "y \<noteq> CHR 0x00" using Suc.prems(3) unfolding b by auto
  have "LibC_strncmp a' b' n = 0" using Suc.prems(4) xy y0 unfolding a b by (simp add: Let_def)
  then have "a' = b'" using Suc.IH [of a' b'] Suc.prems a b by simp
  then show ?case using a b xy by simp
qed

lemma getSymbolHelper_eq:
  assumes "CHR 0x00 \<notin> set s"
  shows "bfVM_getSymbolHelper s symb = (symb = s)"
proof
  assume h: "bfVM_getSymbolHelper s symb"
  then have l: "length s = length symb"
    by (simp add: bfVM_getSymbolHelper_def bfVMString_length_def Let_def)
  have "LibC_strncmp symb s (length s) = 0"
    using h l by (simp add: bfVM_getSymbolHelper_def bfVMString_length_def bfVMString_ccmpn_def Let_def)
  then show "symb = s" using strncmp_eq [of symb "length s" s] l assms by simp
next
  assume "symb = s"
  then show "bfVM_getSymbolHelper s symb" using getSymbolHelper_refl [of s] by simp
qed

lemma find_from_None_iff:
  "(bfVMArray_find_from i c xs = None) = (\<forall>x \<in> set xs. \<not> c x)"
  by (induction xs arbitrary: i) auto

lemma find_from_Some_nth:
  "bfVMArray_find_from i c xs = Some k \<Longrightarrow> i \<le> k \<and> k - i < length xs \<and> c (xs ! (k - i))"
proof (induction xs arbitrary: i)
  case Nil
  then show ?case by simp
next
  case (Cons x xs)
  show ?case
  proof (cases "c x")
    case True
    then show ?thesis using Cons.prems by simp
  next
    case False
    then have f: "bfVMArray_find_from (Suc i) c xs = Some k" using Cons.prems by simp
    from Cons.IH [OF f] have "Suc i \<le> k" "k - Suc i < length xs" "c (xs ! (k - Suc i))" by auto
    moreover have "k - i = Suc (k - Suc i)" using \<open>Suc i \<le> k\<close> by simp
    ultimately show ?thesis by simp
  qed
qed

lemma find_None_iff:
  "CHR 0x00 \<notin> set s \<Longrightarrow>
     (bfVMArray_find (vm_symbols vm) s bfVM_getSymbolHelper = None) = (s \<notin> set (vm_symbols vm))"
  by (auto simp add: bfVMArray_find_def find_from_None_iff getSymbolHelper_eq)

lemma getSymbol_names:
  assumes "bfVM_getSymbol vm s = (i, vm1)" and "CHR 0x00 \<notin> set s" and "length (vm_symbols vm) < 2 ^ 32"
  shows "unat i < length (vm_symbols vm1) \<and> vm_symbols vm1 ! unat i = s"
proof (cases "bfVMArray_find (vm_symbols vm) s bfVM_getSymbolHelper")
  case None
  then have "i = of_nat (length (vm_symbols vm))" "vm_symbols vm1 = vm_symbols vm @ [s]"
    using assms(1) by (auto simp add: bfVM_getSymbol_def)
  moreover have "unat (of_nat (length (vm_symbols vm)) :: 32 word) = length (vm_symbols vm)"
    using assms(3) by (simp add: unat_of_nat)
  ultimately show ?thesis by simp
next
  case (Some k)
  then have v: "i = of_nat k" "vm1 = vm" using assms(1) by (auto simp add: bfVM_getSymbol_def)
  have "bfVMArray_find_from 0 (bfVM_getSymbolHelper s) (vm_symbols vm) = Some k"
    using Some by (simp add: bfVMArray_find_def)
  from find_from_Some_nth [OF this]
  have k: "k < length (vm_symbols vm)" "bfVM_getSymbolHelper s (vm_symbols vm ! k)" by auto
  have "unat (of_nat k :: 32 word) = k" using k(1) assms(3) by (simp add: unat_of_nat)
  then show ?thesis using v k getSymbolHelper_eq [OF assms(2)] by simp
qed


section \<open>Looking up modules\<close>

lemma ccmpn_refl: "bfVMString_ccmpn s s (length s) = 0"
  by (simp add: bfVMString_ccmpn_def bfVMString_length_def strncmp_refl)

lemma findModule_loop_member:
  "findModule_loop h name xs \<noteq> 0 \<Longrightarrow>
     \<exists>key. (key, findModule_loop h name xs) \<in> set xs \<and> str_hash key = h
           \<and> bfVMString_length (str_value key) = length name
           \<and> bfVMString_ccmpn (str_value key) name (length name) = 0"
proof (induction xs)
  case Nil
  then show ?case by simp
next
  case (Cons it rest)
  show ?case
  proof (cases "str_hash (fst it) = h \<and> bfVMString_length (str_value (fst it)) = length name
            \<and> bfVMString_ccmpn (str_value (fst it)) name (length name) = 0")
    case True
    then have "findModule_loop h name (it # rest) = snd it" by (simp add: Let_def)
    then show ?thesis using True by (intro exI [of _ "fst it"]) simp
  next
    case False
    then have e: "findModule_loop h name (it # rest) = findModule_loop h name rest"
      by (auto simp add: Let_def)
    then show ?thesis using Cons by auto
  qed
qed

lemma findModule_loop_found:
  assumes "(key, m) \<in> set xs" and "str_hash key = h" and "str_value key = name"
    and "\<forall>node \<in> set xs. snd node \<noteq> 0"
  shows "findModule_loop h name xs \<noteq> 0"
  using assms
proof (induction xs)
  case Nil
  then show ?case by simp
next
  case (Cons it rest)
  show ?case
  proof (cases "str_hash (fst it) = h \<and> bfVMString_length (str_value (fst it)) = length name
            \<and> bfVMString_ccmpn (str_value (fst it)) name (length name) = 0")
    case True
    then have "findModule_loop h name (it # rest) = snd it" by (simp add: Let_def)
    then show ?thesis using Cons.prems(4) by simp
  next
    case False
    then have e: "findModule_loop h name (it # rest) = findModule_loop h name rest"
      by (auto simp add: Let_def)
    have "it \<noteq> (key, m)"
      using False Cons.prems(2,3) ccmpn_refl [of name] by (auto simp add: bfVMString_length_def)
    then have "(key, m) \<in> set rest" using Cons.prems(1) by auto
    then show ?thesis using e Cons.IH Cons.prems by simp
  qed
qed

lemma hash_main: "bfVMString_hashN ''main'' = 0xEA90E208"
  by (simp add: bfVMString_hashN_def)

lemma concat_replicate_Nil: "concat (replicate n []) = []"
  by (induction n) simp_all

lemma concat_update_replicate_Nil: "i < n \<Longrightarrow> concat ((replicate n [])[i := c]) = c"
proof (induction n arbitrary: i)
  case 0
  then show ?case by simp
next
  case (Suc n)
  then show ?case by (cases i) (simp_all add: concat_replicate_Nil)
qed

lemma unescape_main: "CString_unescape ''main'' = ''main''"
  by simp

lemma find_main_empty: "bfVM_findModule example_import_vm ''main'' = 0"
  by (simp add: bfVM_findModule_def example_import_vm_def example_vm_def concat_replicate_Nil)

lemma set_main_empty:
  "bfHashMap_set (replicate 128 []) \<lparr>str_value = ''main'', str_hash = 0xEA90E208\<rparr> v
   = (replicate 128 [])[8 := [(\<lparr>str_value = ''main'', str_hash = 0xEA90E208\<rparr>, v)]]"
  by (simp add: bfHashMap_set_def ModuleMap_hash_def BIFROST_HASH_MAP_BUCKET_SIZE_def)


lemma example_heap_free: "vm_heap example_import_vm 0x6000 = None"
  by (simp add: example_import_vm_def example_vm_def example_heap_def)

lemma first_import:
  "bfVM_importModule example_import_env example_import_vm ''boot'' ''main''
   = (0x7000,
      example_import_vm
        \<lparr>vm_heap := (vm_heap example_import_vm)
                      (0x6000 := Some (ObjStr \<lparr>str_value = ''main'', str_hash = 0xEA90E208\<rparr>),
                       0x7000 := Some (ObjModule ''main'')),
         vm_modules := (replicate 128 [])[8 := [(\<lparr>str_value = ''main'', str_hash = 0xEA90E208\<rparr>, 0x7000)]],
         vm_events := [EvModuleFn ''boot'' ''main'', EvCompile 0x7000, EvRunModule 0x7000]\<rparr>)"
proof -
  have m: "vm_modules example_import_vm = replicate 128 []"
    and e: "vm_events example_import_vm = []"
    and f: "vm_module_fn example_import_vm"
    by (simp_all add: example_import_vm_def example_vm_def)
  show ?thesis
    unfolding bfVM_importModule_def find_main_empty
    by (simp add: Let_def f bfObj_NewString_def bfObj_NewModule_def hash_main example_import_env_def
          m e set_main_empty unescape_main example_heap_free fun_upd_same
          del: CString_unescape.simps replicate.simps fun_upd_apply)
qed

lemma find_main_after: "bfVM_findModule example_imported_vm ''main'' = 0x7000"
  unfolding example_imported_vm_def first_import
  by (simp add: bfVM_findModule_def concat_update_replicate_Nil hash_main bfVMString_length_def
        bfVMString_ccmpn_def)

lemma events_after:
  "vm_events example_imported_vm
   = [EvModuleFn ''boot'' ''main'', EvCompile 0x7000, EvRunModule 0x7000]"
  unfolding example_imported_vm_def first_import by simp


section \<open>The threshold computed by a collection\<close>











section \<open>The local counter of the builder\<close>

lemma getVariable_loop_bound:
  "getVariable_loop hdr vars name e = Some (Some i) \<Longrightarrow> i < length vars"
  by (induction e) (auto split: if_splits)

lemma declVariable_facts:
  assumes "bfFuncBuilder_declVariable hdr b name = Some ((slot, dup), b')"
  shows "fb_max_local_idx b \<le> fb_max_local_idx b'"
    and "builder_inv b \<Longrightarrow> builder_inv b'"
    and "builder_inv b \<Longrightarrow> slot \<le> fb_max_local_idx b'"
    and "\<not> dup \<Longrightarrow> slot = length (fb_local_vars b) \<and> fb_max_local_idx b' = max (fb_max_local_idx b) slot"
  using assms
  by (auto simp add: bfFuncBuilder_declVariable_def bfFuncBuilder__getVariable_def Let_def builder_inv_def
        split: option.splits if_splits dest: getVariable_loop_bound)

lemma pushTemp_facts:
  assumes "bfFuncBuilder_pushTemp b n = (slot, b')"
  shows "fb_max_local_idx b' = max (fb_max_local_idx b) (length (fb_local_vars b) + unat n)"
    and "builder_inv b \<Longrightarrow> builder_inv b'"
    and "slot = of_nat (length (fb_local_vars b))"
  using assms by (auto simp add: bfFuncBuilder_pushTemp_def Let_def builder_inv_def split: if_splits)

lemma step_facts:
  assumes "builder_step hdr b c = Some b'" and "builder_inv b"
  shows "fb_max_local_idx b \<le> fb_max_local_idx b'"
    and "builder_inv b'"
    and "\<forall>s \<in> set (slots_of_call hdr b c). s \<le> fb_max_local_idx b'"
proof -
  show "fb_max_local_idx b \<le> fb_max_local_idx b'"
    using assms
    by (cases c)
      (auto simp add: bfFuncBuilder_popTemp_def bfFuncBuilder_popScope_def bfFuncBuilder_pushScope_def
         bfFuncBuilder_addInst_def Let_def bfFuncBuilder_pushTemp_def
         dest: declVariable_facts(1) split: if_splits)
  show "builder_inv b'"
    using assms
    by (cases c)
      (auto simp add: bfFuncBuilder_popTemp_def bfFuncBuilder_popScope_def bfFuncBuilder_pushScope_def
         bfFuncBuilder_addInst_def Let_def builder_inv_def bfFuncBuilder_pushTemp_def
         dest: declVariable_facts(2) split: if_splits)
  show "\<forall>s \<in> set (slots_of_call hdr b c). s \<le> fb_max_local_idx b'"
    using assms
    by (cases c)
      (auto simp add: bfFuncBuilder_pushTemp_def Let_def
         dest: declVariable_facts(3) split: if_splits option.splits)
qed

lemma run_facts:
  "builder_run hdr b cs = Some b' \<Longrightarrow> builder_inv b \<Longrightarrow>
     fb_max_local_idx b \<le> fb_max_local_idx b' \<and> builder_inv b'
     \<and> (\<forall>s \<in> set (slots_used hdr b cs). s \<le> fb_max_local_idx b')"
proof (induction cs arbitrary: b)
  case Nil
  then show ?case by simp
next
  case (Cons c cs)
  from Cons.prems(1) obtain b1 where s: "builder_step hdr b c = Some b1"
    and r: "builder_run hdr b1 cs = Some b'"
    by (auto split: option.splits)
  note f = step_facts [OF s Cons.prems(2)]
  note ih = Cons.IH [OF r f(2)]
  show ?case using f ih s by (auto simp add: le_trans)
qed

lemma fold_max_bound: "(\<forall>s \<in> set xs. s \<le> m) \<Longrightarrow> a \<le> m \<Longrightarrow> fold max xs a \<le> (m::nat)"
  by (induction xs arbitrary: a) auto

lemma begin_inv: "builder_inv (bfFuncBuilder_begin bfFuncBuilder_ctor name)"
  by (simp add: builder_inv_def bfFuncBuilder_begin_def bfFuncBuilder_ctor_def bfFuncBuilder_pushScope_def)

lemma end_facts:
  assumes "bfFuncBuilder_end b line out arity = Some (b', fn)"
  shows "fn_instructions fn = fb_instructions b @ [BIFROST_MAKE_INST_OP_ABx (op_code BIFROST_VM_OP_RETURN) 0 0]"
    and "fn_needed_stack_space fn = unat ((of_nat (fb_max_local_idx b) :: 64 word) + of_int arity + 1)"
    and "fn_arity fn = arity"
  using assms
  by (auto simp add: bfFuncBuilder_end_def bfFuncBuilder_popScope_def bfFuncBuilder_addInstABx_def
        bfFuncBuilder_addInst_def Let_def split: option.splits if_splits)

lemma return_word: "BIFROST_MAKE_INST_OP_ABx (op_code BIFROST_VM_OP_RETURN) 0 0 = 0x19"
  by (simp add: BIFROST_MAKE_INST_OP_ABx_def BIFROST_MAKE_INST_OP_def BIFROST_INST_OP_MASK_def)

lemma return_word_decode:
  "bfInst_decodeOp (BIFROST_MAKE_INST_OP_ABx (op_code BIFROST_VM_OP_RETURN) 0 0) = op_code BIFROST_VM_OP_RETURN
   \<and> bfInst_decodeRBx (BIFROST_MAKE_INST_OP_ABx (op_code BIFROST_VM_OP_RETURN) 0 0) = 0"
  by (simp add: decodeOp_ABx decodeRBx_ABx BIFROST_INST_OP_MASK_def)

lemma size_t_sum:
  assumes "0 \<le> int m + a + 1" and "int m + a + 1 < 2 ^ 64"
  shows "int (unat ((of_nat m :: 64 word) + of_int a + 1)) = int m + a + 1"
proof -
  define k where "k = int m + a + 1"
  have w: "(of_nat m :: 64 word) + of_int a + 1 = of_int k" by (simp add: k_def)
  have "uint (of_int k :: 64 word) = take_bit 64 k" by (simp add: uint_word_of_int_eq)
  also have "\<dots> = k" using assms by (simp add: take_bit_int_eq_self k_def)
  finally have "uint ((of_nat m :: 64 word) + of_int a + 1) = k" unfolding w .
  then show ?thesis unfolding k_def by simp
qed

lemma one_temp_run:
  "builder_run no_header (bfFuncBuilder_begin bfFuncBuilder_ctor ''f'') one_temp_build
     = Some \<lparr>fb_name = ''f'', fb_constants = [], fb_local_vars = [[]], fb_local_var_scope_size = [0],
             fb_instructions = [], fb_code_to_line = [], fb_max_local_idx = 1\<rparr>"
  by (simp add: one_temp_build_def bfFuncBuilder_begin_def bfFuncBuilder_ctor_def bfFuncBuilder_pushScope_def
        bfFuncBuilder_pushTemp_def Let_def)

lemma one_temp_slots:
  "slots_used no_header (bfFuncBuilder_begin bfFuncBuilder_ctor ''f'') one_temp_build = [0]"
  by (simp add: one_temp_build_def bfFuncBuilder_begin_def bfFuncBuilder_ctor_def bfFuncBuilder_pushScope_def
        bfFuncBuilder_pushTemp_def Let_def)

lemma local_and_temps_run:
  "builder_run no_header (bfFuncBuilder_begin bfFuncBuilder_ctor ''f'') local_and_temps_build
     = Some \<lparr>fb_name = ''f'', fb_constants = [], fb_local_vars = [''x''], fb_local_var_scope_size = [1],
             fb_instructions = [], fb_code_to_line = [], fb_max_local_idx = 3\<rparr>"
  by (simp add: local_and_temps_build_def bfFuncBuilder_begin_def bfFuncBuilder_ctor_def bfFuncBuilder_pushScope_def
        bfFuncBuilder_pushTemp_def bfFuncBuilder_popTemp_def bfFuncBuilder_declVariable_def
        bfFuncBuilder__getVariable_def Let_def)

lemma local_and_temps_slots:
  "slots_used no_header (bfFuncBuilder_begin bfFuncBuilder_ctor ''f'') local_and_temps_build = [0, 1, 2]"
  by (simp add: local_and_temps_build_def bfFuncBuilder_begin_def bfFuncBuilder_ctor_def bfFuncBuilder_pushScope_def
        bfFuncBuilder_pushTemp_def bfFuncBuilder_popTemp_def bfFuncBuilder_declVariable_def
        bfFuncBuilder__getVariable_def Let_def upt_rec)


section \<open>The type predicates\<close>

text \<open>
  Apart from \<open>isFalse\<close> the predicates are mutually exclusive, and a value satisfies one
  of them exactly when it is not a pattern with all quiet-NaN bits set, the sign bit
  clear, and different from the nil and the true sentinel.
\<close>

lemma type_predicates_exclusive:
  "(bfVMValue_isNumber v \<longrightarrow> \<not> bfVMValue_isTrue v \<and> \<not> bfVMValue_isNull v \<and> \<not> bfVMValue_isPointer v)
   \<and> (bfVMValue_isTrue v \<longrightarrow> \<not> bfVMValue_isNull v \<and> \<not> bfVMValue_isPointer v)
   \<and> (bfVMValue_isNull v \<longrightarrow> \<not> bfVMValue_isPointer v)
   \<and> ((bfVMValue_isNumber v \<or> bfVMValue_isTrue v \<or> bfVMValue_isNull v \<or> bfVMValue_isPointer v)
        = (\<not> (v AND k_VMValuePointerMask = k_QuietNan \<and> v \<noteq> k_VMValueNull \<and> v \<noteq> k_VMValueTrue)))"
proof -
  have tn: "k_VMValueTrue \<noteq> k_VMValueNull" by (simp add: true_value null_value)
  have pq: "bfVMValue_isPointer v \<Longrightarrow> v AND k_VMValuePointerMask \<noteq> k_QuietNan"
    using quiet_ne_mask by (auto simp add: bfVMValue_isPointer_def)
  have t: "bfVMValue_isTrue v \<Longrightarrow> v AND k_VMValuePointerMask = k_QuietNan"
    by (simp add: bfVMValue_isTrue_def true_class)
  have n: "bfVMValue_isNull v \<Longrightarrow> v AND k_VMValuePointerMask = k_QuietNan"
    by (simp add: bfVMValue_isNull_def null_class)
  show ?thesis
    using tn pq t n pointer_not_number [of v] quiet_class_not_number [of v] not_number_cases [of v]
    by (auto simp add: bfVMValue_isTrue_def bfVMValue_isNull_def)
qed

text \<open>The quiet-NaN pattern with tag \<open>0\<close> satisfies none of the five predicates.\<close>

lemma unclassified_value:
  "\<not> (bfVMValue_isNumber 0x7FFC000000000000 \<or> bfVMValue_isTrue 0x7FFC000000000000
      \<or> bfVMValue_isFalse 0x7FFC000000000000 \<or> bfVMValue_isNull 0x7FFC000000000000
      \<or> bfVMValue_isPointer 0x7FFC000000000000)"
  by (simp add: bfVMValue_isNumber_def bfVMValue_isTrue_def bfVMValue_isFalse_def bfVMValue_isNull_def
      bfVMValue_isPointer_def k_QuietNan_def true_value false_value null_value pointer_mask_value)

text \<open>
  Claim C2 fails in the code.  The header builds \<open>k_VMValueFalse\<close> with the tag of nil
  (\<open>k_VMValueTagFalse\<close> is defined and not used): the sentinel for false is the sentinel
  for nil, the value nil satisfies both \<open>isFalse\<close> and \<open>isNull\<close>, the two predicates
  agree on every value, and \<open>bfVMValue_fromBool\<close> of false is nil.
\<close>

theorem C2_false_is_nil:
  "k_VMValueFalse = k_VMValueNull
   \<and> bfVMValue_isFalse k_VMValueNull \<and> bfVMValue_isNull k_VMValueNull
   \<and> (\<forall>v. bfVMValue_isFalse v = bfVMValue_isNull v)
   \<and> bfVMValue_fromBool False = bfVMValue_fromNull"
  by (simp add: bfVMValue_isFalse_def bfVMValue_isNull_def false_value null_value
        bfVMValue_fromBool_def bfVMValue_fromNull_def)


section \<open>Opcodes the interpreter does not handle\<close>

text \<open>
  Claim C1 (the code departs from it).  The parser chooses \<open>CMP_LE\<close> for the token
  \<open><=\<close>, and the interpreter has no \<open>case\<close> for \<open>CMP_LE\<close>: executing
  \<open>CMP_LE 0,1,2\<close> reaches \<open>default\<close>, reports "Invalid OP: 15" whatever the locals hold,
  stores nothing, and the run returns \<open>BIFROST_VM_ERROR_RUNTIME\<close>.
\<close>

theorem C1_cmp_le_is_invalid_op:
  "fst (Expr_parseBinOp_inst (CHR ''<'') BIFROST_TOKEN_CTRL_LE) = BIFROST_VM_OP_CMP_LE
   \<and> exec_inst p (example_vm [BIFROST_MAKE_INST_OP_ABC (op_code BIFROST_VM_OP_CMP_LE) 0 1 2] locals)
       = OpRuntimeError (ErrInvalidOp 15)
           (example_vm [BIFROST_MAKE_INST_OP_ABC (op_code BIFROST_VM_OP_CMP_LE) 0 1 2] locals)
   \<and> exec_loop p (Suc fuel) 0 (example_vm [BIFROST_MAKE_INST_OP_ABC (op_code BIFROST_VM_OP_CMP_LE) 0 1 2] locals)
       = ExecDone BIFROST_VM_ERROR_RUNTIME
           (bfVM_popAllCallFrames
              ((example_vm [BIFROST_MAKE_INST_OP_ABC (op_code BIFROST_VM_OP_CMP_LE) 0 1 2] locals)
                 \<lparr>vm_last_error := ErrTextRuntime (ErrInvalidOp 15)\<rparr>) 0)"
proof -
  let ?i = "BIFROST_MAKE_INST_OP_ABC (op_code BIFROST_VM_OP_CMP_LE) 0 1 2"
  have d: "bfInst_decodeOp ?i = op_code BIFROST_VM_OP_CMP_LE"
    by (simp add: decodeOp_ABC BIFROST_INST_OP_MASK_def)
  have e: "exec_inst p (example_vm [?i] locals) = OpRuntimeError (ErrInvalidOp 15) (example_vm [?i] locals)"
    by (rule exec_inst_CMP_LE [OF at_inst_example d])
  have pr: "fst (Expr_parseBinOp_inst (CHR ''<'') BIFROST_TOKEN_CTRL_LE) = BIFROST_VM_OP_CMP_LE"
    by (simp add: Expr_parseBinOp_inst_def)
  show ?thesis using e pr by simp
qed

text \<open>
  Claim C3 (the code departs from it).  With nil in \<open>locals[1]\<close>, \<open>MATH_MUL 0,1,2\<close> and
  \<open>MATH_DIV 0,1,2\<close> store nil into \<open>locals[0]\<close> and go on to the next instruction; no
  runtime error is raised.  \<open>MATH_SUB 0,1,2\<close> in the same state raises the runtime error.
\<close>

theorem C3_mul_div_store_nil:
  "exec_inst p (example_vm [BIFROST_MAKE_INST_OP_ABC (op_code BIFROST_VM_OP_MATH_MUL) 0 1 2] nil_locals)
     = OpBreak ((example_vm [BIFROST_MAKE_INST_OP_ABC (op_code BIFROST_VM_OP_MATH_MUL) 0 1 2] nil_locals)
                  \<lparr>vm_stack := nil_locals(0 := k_VMValueNull)\<rparr>)
   \<and> exec_inst p (example_vm [BIFROST_MAKE_INST_OP_ABC (op_code BIFROST_VM_OP_MATH_DIV) 0 1 2] nil_locals)
     = OpBreak ((example_vm [BIFROST_MAKE_INST_OP_ABC (op_code BIFROST_VM_OP_MATH_DIV) 0 1 2] nil_locals)
                  \<lparr>vm_stack := nil_locals(0 := k_VMValueNull)\<rparr>)
   \<and> exec_inst p (example_vm [BIFROST_MAKE_INST_OP_ABC (op_code BIFROST_VM_OP_MATH_SUB) 0 1 2] nil_locals)
     = OpRuntimeError ErrSubNonNumber
         (example_vm [BIFROST_MAKE_INST_OP_ABC (op_code BIFROST_VM_OP_MATH_SUB) 0 1 2] nil_locals)"
proof -
  let ?m = "BIFROST_MAKE_INST_OP_ABC (op_code BIFROST_VM_OP_MATH_MUL) 0 1 2"
  let ?d = "BIFROST_MAKE_INST_OP_ABC (op_code BIFROST_VM_OP_MATH_DIV) 0 1 2"
  let ?s = "BIFROST_MAKE_INST_OP_ABC (op_code BIFROST_VM_OP_MATH_SUB) 0 1 2"
  have regs: "unat (bfInst_decodeRa (BIFROST_MAKE_INST_OP_ABC opc 0 1 2)) = 0"
     "unat (bfInst_decodeRb (BIFROST_MAKE_INST_OP_ABC opc 0 1 2)) = 1"
     "unat (bfInst_decodeRc (BIFROST_MAKE_INST_OP_ABC opc 0 1 2)) = 2" for opc
    by (simp_all add: decodeRa_ABC decodeRb_ABC decodeRc_ABC BIFROST_INST_RA_MASK_def
          BIFROST_INST_RB_MASK_def BIFROST_INST_RC_MASK_def)
  have fr: "last (vm_frames (example_vm code locals)) = \<lparr>fr_fn = 0x1000, fr_ip = 0, fr_old_stack = 0, fr_stack = 0\<rparr>"
    for code locals by (simp add: example_vm_def)
  have l1: "locals_get (example_vm code nil_locals) \<lparr>fr_fn = 0x1000, fr_ip = 0, fr_old_stack = 0, fr_stack = 0\<rparr> 1 = k_VMValueNull"
    for code by (simp add: locals_get_def example_vm_def nil_locals_def)
  have st: "locals_set (example_vm code nil_locals) \<lparr>fr_fn = 0x1000, fr_ip = 0, fr_old_stack = 0, fr_stack = 0\<rparr> 0 v
             = (example_vm code nil_locals)\<lparr>vm_stack := nil_locals(0 := v)\<rparr>"
    for code v by (simp add: locals_set_def example_vm_def)
  have dm: "bfInst_decodeOp ?m = op_code BIFROST_VM_OP_MATH_MUL"
    by (simp add: decodeOp_ABC BIFROST_INST_OP_MASK_def)
  have dd: "bfInst_decodeOp ?d = op_code BIFROST_VM_OP_MATH_DIV"
    by (simp add: decodeOp_ABC BIFROST_INST_OP_MASK_def)
  have ds: "bfInst_decodeOp ?s = op_code BIFROST_VM_OP_MATH_SUB"
    by (simp add: decodeOp_ABC BIFROST_INST_OP_MASK_def)
  have a: "exec_inst p (example_vm [?m] nil_locals) = OpBreak ((example_vm [?m] nil_locals)\<lparr>vm_stack := nil_locals(0 := k_VMValueNull)\<rparr>)"
    unfolding exec_inst_MATH_MUL [OF at_inst_example dm]
    by (simp only: regs fr l1 st mul_non_number [OF disjI1 [OF null_not_number]])
  have b: "exec_inst p (example_vm [?d] nil_locals) = OpBreak ((example_vm [?d] nil_locals)\<lparr>vm_stack := nil_locals(0 := k_VMValueNull)\<rparr>)"
    unfolding exec_inst_MATH_DIV [OF at_inst_example dd]
    by (simp only: regs fr l1 st div_non_number [OF disjI1 [OF null_not_number]])
  have c: "exec_inst p (example_vm [?s] nil_locals) = OpRuntimeError ErrSubNonNumber (example_vm [?s] nil_locals)"
    unfolding exec_inst_MATH_SUB [OF at_inst_example ds]
    by (simp only: regs fr l1 exec_MATH_SUB_def Let_def null_not_number simp_thms if_True)
  show ?thesis using a b c by simp
qed


section \<open>Truthiness and the conditional jumps\<close>

text \<open>
  Claim C4.  \<open>bfVMValue_isThuthy\<close> is false exactly for nil, for false, and for a pointer
  value whose address is null: the bit patterns \<open>k_VMValueNull\<close> (which is also
  \<open>k_VMValueFalse\<close>) and \<open>k_VMValuePointerMask\<close>.  Every number is truthy, \<open>0.0\<close> among
  them, and so are \<open>true\<close> and the pointer value of any non-null object address, the
  empty string among them.  \<open>JUMP_IF A, sBx\<close> leaves the machine as it is but for the
  instruction pointer of the running frame: when \<open>locals[A]\<close> is truthy the switch
  leaves with \<open>continue\<close> and the pointer is \<open>ip + sBx\<close>, otherwise it leaves with
  \<open>break\<close> and the loop goes on at \<open>ip + 1\<close>.  \<open>JUMP_IF_NOT\<close> does the opposite.
\<close>

theorem C4_truthiness_and_jumps:
  "(bfVMValue_isThuthy v
      = (\<not> (bfVMValue_isNull v \<or> bfVMValue_isFalse v
             \<or> (bfVMValue_isPointer v \<and> bfVMValue_asPointer v = 0))))
   \<and> ((\<not> bfVMValue_isThuthy v)
        = (v = k_VMValueNull \<or> v = k_VMValueFalse \<or> v = k_VMValuePointerMask))
   \<and> (bfVMValue_isNumber v \<longrightarrow> bfVMValue_isThuthy v)
   \<and> (bfVMValue_isTrue v \<longrightarrow> bfVMValue_isThuthy v)
   \<and> bfVMValue_isThuthy (bfVMValue_fromNumber 0)
   \<and> (a \<noteq> 0 \<and> a AND k_VMValuePointerMask = 0 \<longrightarrow> bfVMValue_isThuthy (bfVMValue_fromPointer a))
   \<and> (at_inst vm fn inst \<and> bfInst_decodeOp inst = op_code BIFROST_VM_OP_JUMP_IF \<longrightarrow>
        exec_inst p vm =
          (if bfVMValue_isThuthy (locals_get vm (last (vm_frames vm)) (unat (bfInst_decodeRa inst)))
           then OpContinue
                  (vm\<lparr>vm_frames := butlast (vm_frames vm)
                         @ [(last (vm_frames vm))
                              \<lparr>fr_ip := fr_ip (last (vm_frames vm)) + bfInst_decodeRsBx inst\<rparr>]\<rparr>)
           else OpBreak vm)
        \<and> exec_loop p (Suc fuel) r vm =
            exec_loop p fuel r
              (vm\<lparr>vm_frames := butlast (vm_frames vm)
                     @ [(last (vm_frames vm))
                          \<lparr>fr_ip := fr_ip (last (vm_frames vm))
                             + (if bfVMValue_isThuthy (locals_get vm (last (vm_frames vm)) (unat (bfInst_decodeRa inst)))
                                then bfInst_decodeRsBx inst else 1)\<rparr>]\<rparr>))
   \<and> (at_inst vm fn inst \<and> bfInst_decodeOp inst = op_code BIFROST_VM_OP_JUMP_IF_NOT \<longrightarrow>
        exec_inst p vm =
          (if bfVMValue_isThuthy (locals_get vm (last (vm_frames vm)) (unat (bfInst_decodeRa inst)))
           then OpBreak vm
           else OpContinue
                  (vm\<lparr>vm_frames := butlast (vm_frames vm)
                         @ [(last (vm_frames vm))
                              \<lparr>fr_ip := fr_ip (last (vm_frames vm)) + bfInst_decodeRsBx inst\<rparr>]\<rparr>))
        \<and> exec_loop p (Suc fuel) r vm =
            exec_loop p fuel r
              (vm\<lparr>vm_frames := butlast (vm_frames vm)
                     @ [(last (vm_frames vm))
                          \<lparr>fr_ip := fr_ip (last (vm_frames vm))
                             + (if bfVMValue_isThuthy (locals_get vm (last (vm_frames vm)) (unat (bfInst_decodeRa inst)))
                                then 1 else bfInst_decodeRsBx inst)\<rparr>]\<rparr>))"
  using truthy_iff [of v] falsy_patterns [of v] number_truthy [of v] true_truthy [of v]
    zero_truthy ptr_truthy [of a]
    exec_inst_JUMP_IF_state [of vm fn inst p] exec_inst_JUMP_IF_NOT_state [of vm fn inst p]
    exec_loop_JUMP_IF [of vm fn inst p fuel r] exec_loop_JUMP_IF_NOT [of vm fn inst p fuel r]
  by blast

text \<open>
  The claim at concrete inputs: the empty string object at \<open>0x4000\<close> is truthy, nil is
  not; from instruction 0, with the number \<open>0.0\<close> in \<open>locals[3]\<close>, \<open>JUMP_IF 3, +5\<close> sets
  the instruction pointer to 5 and \<open>JUMP_IF_NOT 3, +5\<close> falls through; with nil in
  \<open>locals[1]\<close>, \<open>JUMP_IF_NOT 1, +5\<close> sets the instruction pointer to 5.
\<close>

theorem C4_truthiness_and_jumps_witness:
  "bfVMValue_isThuthy (bfVMValue_fromPointer 0x4000)
   \<and> example_heap [] 0x4000 = Some (ObjStr \<lparr>str_value = [], str_hash = 0x811c9dc5\<rparr>)
   \<and> \<not> bfVMValue_isThuthy k_VMValueNull
   \<and> exec_inst example_prims (example_vm [BIFROST_MAKE_INST_OP_AsBx (op_code BIFROST_VM_OP_JUMP_IF) 3 5] (\<lambda>i. 0))
       = OpContinue
           ((example_vm [BIFROST_MAKE_INST_OP_AsBx (op_code BIFROST_VM_OP_JUMP_IF) 3 5] (\<lambda>i. 0))
              \<lparr>vm_frames := [\<lparr>fr_fn = 0x1000, fr_ip = 5, fr_old_stack = 0, fr_stack = 0\<rparr>]\<rparr>)
   \<and> exec_inst example_prims (example_vm [BIFROST_MAKE_INST_OP_AsBx (op_code BIFROST_VM_OP_JUMP_IF_NOT) 3 5] (\<lambda>i. 0))
       = OpBreak (example_vm [BIFROST_MAKE_INST_OP_AsBx (op_code BIFROST_VM_OP_JUMP_IF_NOT) 3 5] (\<lambda>i. 0))
   \<and> exec_inst example_prims (example_vm [BIFROST_MAKE_INST_OP_AsBx (op_code BIFROST_VM_OP_JUMP_IF_NOT) 1 5] nil_locals)
       = OpContinue
           ((example_vm [BIFROST_MAKE_INST_OP_AsBx (op_code BIFROST_VM_OP_JUMP_IF_NOT) 1 5] nil_locals)
              \<lparr>vm_frames := [\<lparr>fr_fn = 0x1000, fr_ip = 5, fr_old_stack = 0, fr_stack = 0\<rparr>]\<rparr>)"
proof -
  let ?j = "BIFROST_MAKE_INST_OP_AsBx (op_code BIFROST_VM_OP_JUMP_IF) 3 5"
  let ?n = "BIFROST_MAKE_INST_OP_AsBx (op_code BIFROST_VM_OP_JUMP_IF_NOT) 3 5"
  let ?m = "BIFROST_MAKE_INST_OP_AsBx (op_code BIFROST_VM_OP_JUMP_IF_NOT) 1 5"
  have dj: "bfInst_decodeOp ?j = op_code BIFROST_VM_OP_JUMP_IF"
    by (simp add: decodeOp_AsBx BIFROST_INST_OP_MASK_def)
  have dn: "bfInst_decodeOp ?n = op_code BIFROST_VM_OP_JUMP_IF_NOT"
    by (simp add: decodeOp_AsBx BIFROST_INST_OP_MASK_def)
  have dm: "bfInst_decodeOp ?m = op_code BIFROST_VM_OP_JUMP_IF_NOT"
    by (simp add: decodeOp_AsBx BIFROST_INST_OP_MASK_def)
  have h1: "(0x4000 :: 64 word) \<noteq> 0 \<and> (0x4000 :: 64 word) AND k_VMValuePointerMask = 0"
    by (simp add: pointer_mask_value)
  have z: "bfVMValue_isThuthy 0" using zero_truthy by (simp add: bfVMValue_fromNumber_def)
  have nn: "\<not> bfVMValue_isThuthy k_VMValueNull"
    using C4_truthiness_and_jumps [of k_VMValueNull] by (simp add: bfVMValue_isNull_def)
  have s: "bfVMValue_isThuthy (bfVMValue_fromPointer 0x4000)"
    using C4_truthiness_and_jumps [of _ "0x4000"] h1 by blast
  have hp: "example_heap [] 0x4000 = Some (ObjStr \<lparr>str_value = [], str_hash = 0x811c9dc5\<rparr>)"
    by (simp add: example_heap_def)
  have j: "exec_inst example_prims (example_vm [?j] (\<lambda>i. 0))
           = OpContinue ((example_vm [?j] (\<lambda>i. 0))
               \<lparr>vm_frames := [\<lparr>fr_fn = 0x1000, fr_ip = 5, fr_old_stack = 0, fr_stack = 0\<rparr>]\<rparr>)"
    using C4_truthiness_and_jumps [of _ _ "example_vm [?j] (\<lambda>i. 0)" "example_fn [?j] 0" ?j example_prims]
      at_inst_example [of ?j "[]" "\<lambda>i. 0"] dj
    by (simp add: example_frames example_zero_locals z decodeRsBx_example
          del: exec_loop.simps)
  have n: "exec_inst example_prims (example_vm [?n] (\<lambda>i. 0)) = OpBreak (example_vm [?n] (\<lambda>i. 0))"
    using C4_truthiness_and_jumps [of _ _ "example_vm [?n] (\<lambda>i. 0)" "example_fn [?n] 0" ?n example_prims]
      at_inst_example [of ?n "[]" "\<lambda>i. 0"] dn
    by (simp add: example_frames example_zero_locals z del: exec_loop.simps)
  have m: "exec_inst example_prims (example_vm [?m] nil_locals)
           = OpContinue ((example_vm [?m] nil_locals)
               \<lparr>vm_frames := [\<lparr>fr_fn = 0x1000, fr_ip = 5, fr_old_stack = 0, fr_stack = 0\<rparr>]\<rparr>)"
    using C4_truthiness_and_jumps [of _ _ "example_vm [?m] nil_locals" "example_fn [?m] 0" ?m example_prims]
      at_inst_example [of ?m "[]" nil_locals] dm
    by (simp add: example_frames decodeRa_example1 example_nil_local nn decodeRsBx_example
          del: exec_loop.simps)
  show ?thesis by (rule conjI [OF s conjI [OF hp conjI [OF nn conjI [OF j conjI [OF n m]]]]])
qed


section \<open>The arity check of a call\<close>




section \<open>Closing a loop\<close>

text \<open>
  Claim C5, amended.  \<open>loopPop\<close> on a loop whose body starts at \<open>body_start\<close> leaves no
  all-ones word between \<open>body_start\<close> and the end of the instruction vector; every
  all-ones word there becomes a \<open>JUMP\<close>, whose target is the first instruction after
  the loop when the word is at most 131072 instructions before that place; all other
  words are unchanged.
\<close>

theorem C5_break_patching:
  assumes "loop_stack = body_start # parent"
    and "body_end = length (fb_instructions b)"
    and "insts' = loopPop_patch body_start body_end (fb_instructions b)"
  shows "loopPop b loop_stack = Some (b\<lparr>fb_instructions := insts'\<rparr>, parent)
         \<and> length insts' = body_end
         \<and> (\<forall>i. body_start \<le> i \<and> i < body_end \<longrightarrow> insts' ! i \<noteq> BIFROST_INST_INVALID)
         \<and> (\<forall>i. body_start \<le> i \<and> i < body_end \<and> fb_instructions b ! i = BIFROST_INST_INVALID \<longrightarrow>
               bfInst_decodeOp (insts' ! i) = op_code BIFROST_VM_OP_JUMP
               \<and> (body_end - i \<le> 131072 \<longrightarrow> jump_target i (insts' ! i) = int body_end))
         \<and> (\<forall>i. i < body_end \<and> \<not> (body_start \<le> i \<and> fb_instructions b ! i = BIFROST_INST_INVALID) \<longrightarrow>
               insts' ! i = fb_instructions b ! i)"
proof -
  have a: "loopPop b loop_stack = Some (b\<lparr>fb_instructions := insts'\<rparr>, parent)"
    using assms by (simp add: loopPop_def Let_def)
  have l: "length insts' = body_end"
    using assms by (simp add: loopPop_patch_length)
  have nth: "insts' ! i =
     (if body_start \<le> i \<and> i < body_end \<and> fb_instructions b ! i = BIFROST_INST_INVALID
      then BIFROST_MAKE_INST_OP_AsBx (op_code BIFROST_VM_OP_JUMP) 0 (of_nat (body_end - i))
      else fb_instructions b ! i)" if "i < body_end" for i
    using that assms loopPop_patch_nth [of i "fb_instructions b" body_start body_end] by simp
  have c: "\<forall>i. body_start \<le> i \<and> i < body_end \<longrightarrow> insts' ! i \<noteq> BIFROST_INST_INVALID"
    using nth jump_word_not_invalid by auto
  have dop: "bfInst_decodeOp (BIFROST_MAKE_INST_OP_AsBx (op_code BIFROST_VM_OP_JUMP) 0 x) = op_code BIFROST_VM_OP_JUMP" for x
    by (simp add: decodeOp_AsBx BIFROST_INST_OP_MASK_def)
  have d: "\<forall>i. body_start \<le> i \<and> i < body_end \<and> fb_instructions b ! i = BIFROST_INST_INVALID \<longrightarrow>
               bfInst_decodeOp (insts' ! i) = op_code BIFROST_VM_OP_JUMP
               \<and> (body_end - i \<le> 131072 \<longrightarrow> jump_target i (insts' ! i) = int body_end)"
  proof (intro allI impI)
    fix i assume h: "body_start \<le> i \<and> i < body_end \<and> fb_instructions b ! i = BIFROST_INST_INVALID"
    then have e: "insts' ! i = BIFROST_MAKE_INST_OP_AsBx (op_code BIFROST_VM_OP_JUMP) 0 (of_nat (body_end - i))"
      using nth [of i] by simp
    have t: "jump_target i (insts' ! i) = int body_end" if "body_end - i \<le> 131072"
      using h decodeRsBx_of_nat [OF that, of "op_code BIFROST_VM_OP_JUMP" 0]
      unfolding e jump_target_def by simp
    show "bfInst_decodeOp (insts' ! i) = op_code BIFROST_VM_OP_JUMP
               \<and> (body_end - i \<le> 131072 \<longrightarrow> jump_target i (insts' ! i) = int body_end)"
      using t unfolding e dop by simp
  qed
  have u: "\<forall>i. i < body_end \<and> \<not> (body_start \<le> i \<and> fb_instructions b ! i = BIFROST_INST_INVALID) \<longrightarrow>
               insts' ! i = fb_instructions b ! i"
    using nth by auto
  show ?thesis using a l c d u by blast
qed

text \<open>
  The amended claim on a loop of three words: the \<open>break\<close> word at index 1 becomes a
  \<open>JUMP\<close> to index 3, the word before it stays.
\<close>

theorem C5_break_patching_witness:
  "(case loopPop small_loop [0] of
      None \<Rightarrow> False
    | Some r \<Rightarrow> snd r = [] \<and> length (fb_instructions (fst r)) = 3
                \<and> fb_instructions (fst r) ! 1 \<noteq> BIFROST_INST_INVALID
                \<and> bfInst_decodeOp (fb_instructions (fst r) ! 1) = op_code BIFROST_VM_OP_JUMP
                \<and> jump_target 1 (fb_instructions (fst r) ! 1) = 3
                \<and> fb_instructions (fst r) ! 0 = 0x19)"
proof -
  have len: "3 = length (fb_instructions small_loop)" by (simp add: small_loop_def)
  have s1: "fb_instructions small_loop ! 1 = BIFROST_INST_INVALID" by (simp add: small_loop_def)
  have s0: "fb_instructions small_loop ! 0 = 0x19" "(0x19 :: 32 word) \<noteq> BIFROST_INST_INVALID"
    by (simp_all add: small_loop_def BIFROST_INST_INVALID_def)
  note t = C5_break_patching [OF refl len refl, where body_start = 0 and parent = "[]"]
  let ?p = "loopPop_patch 0 3 (fb_instructions small_loop)"
  from t have a: "loopPop small_loop [0] = Some (small_loop\<lparr>fb_instructions := ?p\<rparr>, [])"
    by blast
  from t have l: "length ?p = 3" by blast
  from t have n0: "\<forall>i. 0 \<le> i \<and> i < 3 \<longrightarrow> ?p ! i \<noteq> BIFROST_INST_INVALID" by blast
  from t have j0: "\<forall>i. 0 \<le> i \<and> i < 3 \<and> fb_instructions small_loop ! i = BIFROST_INST_INVALID \<longrightarrow>
               bfInst_decodeOp (?p ! i) = op_code BIFROST_VM_OP_JUMP
               \<and> (3 - i \<le> 131072 \<longrightarrow> jump_target i (?p ! i) = int 3)" by blast
  from t have u0: "\<forall>i. i < 3 \<and> \<not> (0 \<le> i \<and> fb_instructions small_loop ! i = BIFROST_INST_INVALID) \<longrightarrow>
               ?p ! i = fb_instructions small_loop ! i" by blast
  have n: "?p ! 1 \<noteq> BIFROST_INST_INVALID" using n0 [rule_format, of 1] by simp
  have j: "bfInst_decodeOp (?p ! 1) = op_code BIFROST_VM_OP_JUMP \<and> jump_target 1 (?p ! 1) = 3"
    using j0 [rule_format, of 1] s1 by simp
  have u: "?p ! 0 = 0x19" using u0 [rule_format, of 0] s0 by simp
  show ?thesis unfolding a using l n j u by simp
qed

text \<open>
  Claim C5 as stated fails on a loop of 131073 words that starts with a \<open>break\<close>: the
  offset 131073 does not fit the 18-bit signed operand, and the \<open>JUMP\<close> written at
  index 0 goes to \<open>- 131071\<close>, not to the first instruction after the loop (131073).
\<close>

theorem C5_long_loop_counterexample:
  "length long_loop_body = 131073
   \<and> long_loop_body ! 0 = BIFROST_INST_INVALID
   \<and> loopPop (bfFuncBuilder_ctor\<lparr>fb_instructions := long_loop_body\<rparr>) [0]
       = Some (bfFuncBuilder_ctor\<lparr>fb_instructions := loopPop_patch 0 131073 long_loop_body\<rparr>, [])
   \<and> jump_target 0 (loopPop_patch 0 131073 long_loop_body ! 0) = - 131071"
proof -
  let ?b = "bfFuncBuilder_ctor\<lparr>fb_instructions := long_loop_body\<rparr>"
  have i: "fb_instructions ?b = long_loop_body" by simp
  have p: "loopPop ?b [0] = Some (?b\<lparr>fb_instructions := loopPop_patch 0 131073 long_loop_body\<rparr>, [])"
    by (simp add: loopPop_def Let_def long_loop_body_length)
  have k: "(0::nat) < length long_loop_body" by (simp only: long_loop_body_length)
  have n: "loopPop_patch 0 131073 long_loop_body ! 0
            = BIFROST_MAKE_INST_OP_AsBx (op_code BIFROST_VM_OP_JUMP) 0 131073"
    unfolding loopPop_patch_nth [OF k] long_loop_body_hd by simp
  have q: "?b\<lparr>fb_instructions := loopPop_patch 0 131073 long_loop_body\<rparr>
            = bfFuncBuilder_ctor\<lparr>fb_instructions := loopPop_patch 0 131073 long_loop_body\<rparr>"
    by simp
  have t: "jump_target 0 (loopPop_patch 0 131073 long_loop_body ! 0) = - 131071"
    unfolding n by (simp add: jump_target_def decodeRsBx_overflow del: op_code.simps)
  show ?thesis
    using long_loop_body_length long_loop_body_hd p q t by simp
qed


section \<open>Ending a build\<close>

text \<open>
  Claim C6, amended.  For a build that starts with \<open>bfFuncBuilder_begin\<close> on a new
  builder, \<open>bfFuncBuilder_end\<close> appends \<open>RETURN 0\<close> as the last instruction, records the
  arity, and records \<open>needed_stack_space = max_local_idx + arity + 1\<close> (in \<open>size_t\<close>
  arithmetic; the plain sum when that is in range), where \<open>max_local_idx\<close> is the
  builder's counter.  The counter is an upper bound of every slot index handed out
  during the build, hence of the largest one; it need not be equal to it.
\<close>

theorem C6_end_of_build:
  assumes "builder_run hdr (bfFuncBuilder_begin bfFuncBuilder_ctor name) cs = Some b"
    and "bfFuncBuilder_end b line out arity = Some (b', fn)"
  shows "fn_instructions fn = fb_instructions b @ [BIFROST_MAKE_INST_OP_ABx (op_code BIFROST_VM_OP_RETURN) 0 0]
         \<and> bfInst_decodeOp (last (fn_instructions fn)) = op_code BIFROST_VM_OP_RETURN
         \<and> bfInst_decodeRBx (last (fn_instructions fn)) = 0
         \<and> fn_arity fn = arity
         \<and> fn_needed_stack_space fn = unat ((of_nat (fb_max_local_idx b) :: 64 word) + of_int arity + 1)
         \<and> (0 \<le> int (fb_max_local_idx b) + arity + 1 \<and> int (fb_max_local_idx b) + arity + 1 < 2 ^ 64 \<longrightarrow>
              int (fn_needed_stack_space fn) = int (fb_max_local_idx b) + arity + 1)
         \<and> (\<forall>s \<in> set (slots_used hdr (bfFuncBuilder_begin bfFuncBuilder_ctor name) cs). s \<le> fb_max_local_idx b)
         \<and> spec_largest_slot_used hdr (bfFuncBuilder_begin bfFuncBuilder_ctor name) cs \<le> fb_max_local_idx b"
proof -
  note e = end_facts [OF assms(2)]
  note r = run_facts [OF assms(1) begin_inv]
  have l: "last (fn_instructions fn) = BIFROST_MAKE_INST_OP_ABx (op_code BIFROST_VM_OP_RETURN) 0 0"
    unfolding e(1) by simp
  have d: "bfInst_decodeOp (last (fn_instructions fn)) = op_code BIFROST_VM_OP_RETURN
         \<and> bfInst_decodeRBx (last (fn_instructions fn)) = 0"
    unfolding l by (rule return_word_decode)
  have n: "0 \<le> int (fb_max_local_idx b) + arity + 1 \<and> int (fb_max_local_idx b) + arity + 1 < 2 ^ 64 \<longrightarrow>
              int (fn_needed_stack_space fn) = int (fb_max_local_idx b) + arity + 1"
    unfolding e(2) using size_t_sum [of "fb_max_local_idx b" arity] by blast
  have s: "\<forall>s \<in> set (slots_used hdr (bfFuncBuilder_begin bfFuncBuilder_ctor name) cs). s \<le> fb_max_local_idx b"
    using r by blast
  have m: "spec_largest_slot_used hdr (bfFuncBuilder_begin bfFuncBuilder_ctor name) cs \<le> fb_max_local_idx b"
    unfolding spec_largest_slot_used_def by (rule fold_max_bound [OF s]) simp
  show ?thesis using e d n s m by blast
qed

text \<open>
  The amended claim on the build that declares the local \<open>x\<close> (slot 0), pushes two
  temporaries (slots 1 and 2) and pops them, ended with arity 1: the counter is 3, the
  largest slot index used is 2, and \<open>needed_stack_space\<close> is \<open>3 + 1 + 1\<close>.
\<close>

theorem C6_end_of_build_witness:
  "\<exists>b b' fn.
      builder_run no_header (bfFuncBuilder_begin bfFuncBuilder_ctor ''f'') local_and_temps_build = Some b
      \<and> bfFuncBuilder_end b 1 (new_function 0x5000) 1 = Some (b', fn)
      \<and> fb_max_local_idx b = 3
      \<and> spec_largest_slot_used no_header (bfFuncBuilder_begin bfFuncBuilder_ctor ''f'') local_and_temps_build = 2
      \<and> fn_needed_stack_space fn = 5
      \<and> fn_arity fn = 1
      \<and> bfInst_decodeOp (last (fn_instructions fn)) = op_code BIFROST_VM_OP_RETURN
      \<and> bfInst_decodeRBx (last (fn_instructions fn)) = 0"
proof -
  let ?b = "\<lparr>fb_name = ''f'', fb_constants = [], fb_local_vars = [''x''], fb_local_var_scope_size = [1],
             fb_instructions = [], fb_code_to_line = [], fb_max_local_idx = 3\<rparr>"
  obtain b' fn where e: "bfFuncBuilder_end ?b 1 (new_function 0x5000) 1 = Some (b', fn)"
    by (simp add: bfFuncBuilder_end_def bfFuncBuilder_popScope_def bfFuncBuilder_addInstABx_def
          bfFuncBuilder_addInst_def Let_def)
  note t = C6_end_of_build [OF local_and_temps_run e]
  have m: "fb_max_local_idx ?b = 3" by simp
  have n: "int (fn_needed_stack_space fn) = 5" using t unfolding m by simp
  have l: "spec_largest_slot_used no_header (bfFuncBuilder_begin bfFuncBuilder_ctor ''f'') local_and_temps_build = 2"
    unfolding spec_largest_slot_used_def local_and_temps_slots by simp
  have a: "fn_arity fn = 1" using t by blast
  have d: "bfInst_decodeOp (last (fn_instructions fn)) = op_code BIFROST_VM_OP_RETURN
           \<and> bfInst_decodeRBx (last (fn_instructions fn)) = 0" using t by blast
  show ?thesis
    using local_and_temps_run e m n l a d by (intro exI [of _ ?b] exI [of _ b'] exI [of _ fn]) simp
qed

text \<open>
  Claim C6 as stated fails on the build that pushes one temporary: the only slot used
  is 0, so the claim gives \<open>needed_stack_space = 0 + 0 + 1\<close> for arity 0; the builder
  records 2, because \<open>bfFuncBuilder_pushTemp\<close> moves its counter to one past the
  temporary.
\<close>

theorem C6_one_temp_counterexample:
  "slots_used no_header (bfFuncBuilder_begin bfFuncBuilder_ctor ''f'') one_temp_build = [0]
   \<and> spec_largest_slot_used no_header (bfFuncBuilder_begin bfFuncBuilder_ctor ''f'') one_temp_build = 0
   \<and> map_option (\<lambda>b. map_option (\<lambda>r. fn_needed_stack_space (snd r))
                        (bfFuncBuilder_end b 1 (new_function 0x5000) 0))
        (builder_run no_header (bfFuncBuilder_begin bfFuncBuilder_ctor ''f'') one_temp_build)
       = Some (Some 2)"
  unfolding one_temp_run spec_largest_slot_used_def one_temp_slots
  by (simp add: bfFuncBuilder_end_def bfFuncBuilder_popScope_def bfFuncBuilder_addInstABx_def
        bfFuncBuilder_addInst_def Let_def new_function_def)


section \<open>Symbol ids\<close>

text \<open>
  Claim C8, amended.  Let \<open>bfVM_getSymbol\<close> return the id \<open>i\<close> for the name \<open>s\<close>.  After any
  further calls of \<open>bfVM_getSymbol\<close>, for any names, a call for \<open>s\<close> returns \<open>i\<close> again
  and changes nothing.  If \<open>s\<close> holds no NUL byte and is not in the table, \<open>i\<close> is the
  size the table had (as \<open>uint32_t\<close>; the size itself below \<open>2^32\<close>) and \<open>s\<close> is appended;
  if \<open>s\<close> holds no NUL byte and is in the table, the table is unchanged; either way the
  table then holds \<open>s\<close> at the index \<open>i\<close>, so different such names have different ids.
  For any name, the lookup of the code not finding a match means the first, and finding
  one the second.  The table only grows at its end: what it held stays at the same
  indices.
\<close>

theorem C8_symbol_ids_stable:
  assumes "bfVM_getSymbol vm s = (i, vm1)"
  shows "(\<forall>names. bfVM_getSymbol (bfVM_getSymbols vm1 names) s = (i, bfVM_getSymbols vm1 names))
         \<and> (CHR 0x00 \<notin> set s \<and> s \<notin> set (vm_symbols vm) \<longrightarrow>
               i = of_nat (length (vm_symbols vm)) \<and> vm_symbols vm1 = vm_symbols vm @ [s]
               \<and> (length (vm_symbols vm) < 2 ^ 32 \<longrightarrow> unat i = length (vm_symbols vm)))
         \<and> (CHR 0x00 \<notin> set s \<and> s \<in> set (vm_symbols vm) \<longrightarrow> vm1 = vm)
         \<and> (CHR 0x00 \<notin> set s \<and> length (vm_symbols vm) < 2 ^ 32 \<longrightarrow>
               unat i < length (vm_symbols vm1) \<and> vm_symbols vm1 ! unat i = s)
         \<and> (bfVMArray_find (vm_symbols vm) s bfVM_getSymbolHelper = None \<longrightarrow>
               i = of_nat (length (vm_symbols vm)) \<and> vm_symbols vm1 = vm_symbols vm @ [s]
               \<and> (length (vm_symbols vm) < 2 ^ 32 \<longrightarrow> unat i = length (vm_symbols vm)))
         \<and> (bfVMArray_find (vm_symbols vm) s bfVM_getSymbolHelper \<noteq> None \<longrightarrow> vm1 = vm)
         \<and> (\<forall>names. length (vm_symbols vm) \<le> length (vm_symbols (bfVM_getSymbols vm1 names))
               \<and> take (length (vm_symbols vm)) (vm_symbols (bfVM_getSymbols vm1 names)) = vm_symbols vm)"
proof -
  obtain k where k: "symbol_index vm1 s = Some k" "i = of_nat k"
    using getSymbol_index_after [OF assms] by blast
  have a: "\<forall>names. bfVM_getSymbol (bfVM_getSymbols vm1 names) s = (i, bfVM_getSymbols vm1 names)"
    using getSymbols_keeps_index [OF k(1)] getSymbol_of_index k(2) by blast
  have b: "bfVMArray_find (vm_symbols vm) s bfVM_getSymbolHelper = None \<longrightarrow>
               i = of_nat (length (vm_symbols vm)) \<and> vm_symbols vm1 = vm_symbols vm @ [s]
               \<and> (length (vm_symbols vm) < 2 ^ 32 \<longrightarrow> unat i = length (vm_symbols vm))"
    using assms by (auto simp add: bfVM_getSymbol_def unat_of_nat)
  have c: "bfVMArray_find (vm_symbols vm) s bfVM_getSymbolHelper \<noteq> None \<longrightarrow> vm1 = vm"
    using assms by (auto simp add: bfVM_getSymbol_def)
  have v1: "vm1 = snd (bfVM_getSymbol vm s)" using assms by simp
  have d: "\<forall>names. length (vm_symbols vm) \<le> length (vm_symbols (bfVM_getSymbols vm1 names))
               \<and> take (length (vm_symbols vm)) (vm_symbols (bfVM_getSymbols vm1 names)) = vm_symbols vm"
    using getSymbols_prefix [of vm "s # names" for names] unfolding v1 by simp
  have e: "CHR 0x00 \<notin> set s \<and> length (vm_symbols vm) < 2 ^ 32 \<longrightarrow>
               unat i < length (vm_symbols vm1) \<and> vm_symbols vm1 ! unat i = s"
    using getSymbol_names [OF assms] by blast
  have b2: "CHR 0x00 \<notin> set s \<and> s \<notin> set (vm_symbols vm) \<longrightarrow>
               i = of_nat (length (vm_symbols vm)) \<and> vm_symbols vm1 = vm_symbols vm @ [s]
               \<and> (length (vm_symbols vm) < 2 ^ 32 \<longrightarrow> unat i = length (vm_symbols vm))"
  proof
    assume h: "CHR 0x00 \<notin> set s \<and> s \<notin> set (vm_symbols vm)"
    then have "bfVMArray_find (vm_symbols vm) s bfVM_getSymbolHelper = None"
      using find_None_iff [of s vm] by simp
    then show "i = of_nat (length (vm_symbols vm)) \<and> vm_symbols vm1 = vm_symbols vm @ [s]
               \<and> (length (vm_symbols vm) < 2 ^ 32 \<longrightarrow> unat i = length (vm_symbols vm))"
      using b by (rule rev_mp)
  qed
  have c2: "CHR 0x00 \<notin> set s \<and> s \<in> set (vm_symbols vm) \<longrightarrow> vm1 = vm"
  proof
    assume h: "CHR 0x00 \<notin> set s \<and> s \<in> set (vm_symbols vm)"
    then have "bfVMArray_find (vm_symbols vm) s bfVM_getSymbolHelper \<noteq> None"
      using find_None_iff [of s vm] by simp
    then show "vm1 = vm" using c by (rule rev_mp)
  qed
  show ?thesis
    by (rule conjI [OF a conjI [OF b2 conjI [OF c2 conjI [OF e conjI [OF b conjI [OF c d]]]]]])
qed

text \<open>
  An instance: in a table holding \<open>ctor\<close>, \<open>dtor\<close> and \<open>call\<close> the new name \<open>x\<close> gets the
  id 3, the size of the table, and keeps it when \<open>y\<close>, \<open>ctor\<close> and \<open>z\<close> are looked up
  afterwards.
\<close>

theorem C8_symbol_ids_stable_witness:
  "bfVM_getSymbol (example_vm [] (\<lambda>i. 0)) ''x''
     = (3, (example_vm [] (\<lambda>i. 0))\<lparr>vm_symbols := [''ctor'', ''dtor'', ''call'', ''x'']\<rparr>)
   \<and> ''x'' \<notin> set (vm_symbols (example_vm [] (\<lambda>i. 0)))
   \<and> length (vm_symbols (example_vm [] (\<lambda>i. 0))) = 3
   \<and> fst (bfVM_getSymbol
        (bfVM_getSymbols ((example_vm [] (\<lambda>i. 0))\<lparr>vm_symbols := [''ctor'', ''dtor'', ''call'', ''x'']\<rparr>)
           [''y'', ''ctor'', ''z''])
        ''x'') = 3
   \<and> take 3 (vm_symbols
        (bfVM_getSymbols ((example_vm [] (\<lambda>i. 0))\<lparr>vm_symbols := [''ctor'', ''dtor'', ''call'', ''x'']\<rparr>)
           [''y'', ''ctor'', ''z''])) = [''ctor'', ''dtor'', ''call'']"
proof -
  note t = C8_symbol_ids_stable [OF x_fresh]
  let ?vm1 = "(example_vm [] (\<lambda>i. 0))\<lparr>vm_symbols := [''ctor'', ''dtor'', ''call'', ''x'']\<rparr>"
  have a: "bfVM_getSymbol (bfVM_getSymbols ?vm1 [''y'', ''ctor'', ''z'']) ''x''
             = (3, bfVM_getSymbols ?vm1 [''y'', ''ctor'', ''z''])"
    by (rule spec [OF conjunct1 [OF t]])
  have l: "vm_symbols (example_vm [] (\<lambda>i. 0)) = [''ctor'', ''dtor'', ''call'']"
    by (simp add: example_vm_def)
  have len: "length (vm_symbols (example_vm [] (\<lambda>i. 0))) = 3"
    by (simp add: l)
  have fresh: "''x'' \<notin> set (vm_symbols (example_vm [] (\<lambda>i. 0)))"
    by (simp add: l)
  have nul: "CHR 0x00 \<notin> set ''x''" by simp
  have "(3 :: 32 word) = of_nat (length (vm_symbols (example_vm [] (\<lambda>i. 0))))"
    using mp [OF conjunct1 [OF conjunct2 [OF t]] conjI [OF nul fresh]] by (rule conjunct1)
  have t2: "take (length (vm_symbols (example_vm [] (\<lambda>i. 0))))
                 (vm_symbols (bfVM_getSymbols ?vm1 [''y'', ''ctor'', ''z'']))
               = vm_symbols (example_vm [] (\<lambda>i. 0))"
    using spec [OF conjunct2 [OF conjunct2 [OF conjunct2 [OF conjunct2 [OF conjunct2 [OF conjunct2 [OF t]]]]]]]
    by (rule conjunct2)
  have b: "take 3 (vm_symbols (bfVM_getSymbols ?vm1 [''y'', ''ctor'', ''z''])) = [''ctor'', ''dtor'', ''call'']"
    using t2 [unfolded len] by (simp only: l)
  from a have a': "fst (bfVM_getSymbol (bfVM_getSymbols ?vm1 [''y'', ''ctor'', ''z'']) ''x'') = 3"
    by (simp only: fst_conv)
  show ?thesis by (rule conjI [OF x_fresh conjI [OF fresh conjI [OF len conjI [OF a' b]]]])
qed

text \<open>
  Claim C8 as stated, for any name, fails for a name with a NUL byte: the compare
  function goes through \<open>strncmp\<close>, which stops at the NUL.  After the three bytes
  \<open>a\<close>, NUL, \<open>b\<close> have got the id 3, the name \<open>a\<close>, NUL, \<open>c\<close>, which is not in the table, gets
  the id 3 as well, not the table size 4, and is not appended.
\<close>

theorem C8_nul_name_counterexample:
  "bfVM_getSymbol (example_vm [] (\<lambda>i. 0)) [CHR ''a'', CHR 0x00, CHR ''b'']
     = (3, (example_vm [] (\<lambda>i. 0))
             \<lparr>vm_symbols := [''ctor'', ''dtor'', ''call'', [CHR ''a'', CHR 0x00, CHR ''b'']]\<rparr>)
   \<and> [CHR ''a'', CHR 0x00, CHR ''c'']
       \<notin> set [''ctor'', ''dtor'', ''call'', [CHR ''a'', CHR 0x00, CHR ''b'']]
   \<and> bfVM_getSymbol
        ((example_vm [] (\<lambda>i. 0))
           \<lparr>vm_symbols := [''ctor'', ''dtor'', ''call'', [CHR ''a'', CHR 0x00, CHR ''b'']]\<rparr>)
        [CHR ''a'', CHR 0x00, CHR ''c'']
     = (3, (example_vm [] (\<lambda>i. 0))
             \<lparr>vm_symbols := [''ctor'', ''dtor'', ''call'', [CHR ''a'', CHR 0x00, CHR ''b'']]\<rparr>)"
  by (simp add: bfVM_getSymbol_def bfVMArray_find_def bfVM_getSymbolHelper_def bfVMString_length_def
        bfVMString_ccmpn_def example_vm_def Let_def)


section \<open>The heap threshold after a collection\<close>





section \<open>Importing a registered module\<close>

text \<open>
  Claim C10.  A name is in the registry when \<open>bfVM_findModule\<close> finds a module for it:
  some chain of \<open>vm_modules\<close> holds a node whose key has the hash, the length and the
  bytes of the name.  For such a name \<open>bfVM_importModule\<close> returns that module and the
  machine it was given: no call of the host's module callback, no compilation and no
  run of module code is recorded in \<open>vm_events\<close>, and \<open>vm_modules\<close>, the heap and
  \<open>vm_last_error\<close> are what they were.  \<open>bfVM_findModule\<close> does find every name that is
  the key of a node, the registry holding no \<open>NULL\<close> module (the second conjunct).
  A successful import registers a module under the unescaped name, which is the name
  itself when it holds no backslash; a second import of such a name is an import of a
  registered name.
\<close>

theorem C10_import_registered_module:
  "(bfVM_findModule vm name \<noteq> 0 \<longrightarrow>
      bfVM_importModule env vm from_name name = (bfVM_findModule vm name, vm)
      \<and> (\<exists>key. (key, bfVM_findModule vm name) \<in> set (concat (vm_modules vm))
                \<and> str_hash key = bfVMString_hashN name
                \<and> bfVMString_length (str_value key) = length name
                \<and> bfVMString_ccmpn (str_value key) name (length name) = 0))
   \<and> ((key, m) \<in> set (concat (vm_modules vm)) \<and> str_value key = name
         \<and> str_hash key = bfVMString_hashN name
         \<and> (\<forall>node \<in> set (concat (vm_modules vm)). snd node \<noteq> 0) \<longrightarrow>
       bfVM_findModule vm name \<noteq> 0)"
proof -
  have a: "bfVM_importModule env vm from_name name = (bfVM_findModule vm name, vm)"
    if "bfVM_findModule vm name \<noteq> 0"
    using that by (simp add: bfVM_importModule_def Let_def)
  have b: "\<exists>key. (key, bfVM_findModule vm name) \<in> set (concat (vm_modules vm))
                \<and> str_hash key = bfVMString_hashN name
                \<and> bfVMString_length (str_value key) = length name
                \<and> bfVMString_ccmpn (str_value key) name (length name) = 0"
    if "bfVM_findModule vm name \<noteq> 0"
    using that findModule_loop_member [of "bfVMString_hashN name" name "concat (vm_modules vm)"]
    by (simp add: bfVM_findModule_def Let_def)
  have c: "bfVM_findModule vm name \<noteq> 0"
    if "(key, m) \<in> set (concat (vm_modules vm))" "str_value key = name"
       "str_hash key = bfVMString_hashN name" "\<forall>node \<in> set (concat (vm_modules vm)). snd node \<noteq> 0"
    using findModule_loop_found [OF that(1) that(3) that(2) that(4)]
    by (simp add: bfVM_findModule_def Let_def)
  show ?thesis using a b c by blast
qed

text \<open>
  An instance: the machine that has imported \<open>main\<close> once (callback, compilation and run
  recorded, module at \<open>0x7000\<close>) imports it again and is unchanged.
\<close>

theorem C10_import_registered_module_witness:
  "bfVM_findModule example_imported_vm ''main'' = 0x7000
   \<and> vm_events example_imported_vm
       = [EvModuleFn ''boot'' ''main'', EvCompile 0x7000, EvRunModule 0x7000]
   \<and> bfVM_importModule example_import_env example_imported_vm ''lib'' ''main''
       = (0x7000, example_imported_vm)"
proof -
  note t = C10_import_registered_module
             [where vm = example_imported_vm and name = "''main''" and env = example_import_env
                and from_name = "''lib''"
                and key = "\<lparr>str_value = ''main'', str_hash = 0xEA90E208\<rparr>" and m = "0x7000"]
  have nz: "bfVM_findModule example_imported_vm ''main'' \<noteq> 0"
    unfolding find_main_after by simp
  from t nz have "bfVM_importModule example_import_env example_imported_vm ''lib'' ''main''
                  = (bfVM_findModule example_imported_vm ''main'', example_imported_vm)"
    by blast
  then have i: "bfVM_importModule example_import_env example_imported_vm ''lib'' ''main''
                = (0x7000, example_imported_vm)"
    by (simp only: find_main_after)
  show ?thesis by (rule conjI [OF find_main_after conjI [OF events_after i]])
qed

end
